theory Spec2Isabelle
  imports Complex_Main
begin

section \<open>The unfolding engine of RooUnfold.cxx\<close>

text \<open>
  A shallow embedding of the class \<^verbatim>\<open>RooUnfoldT<Hist,Hist2D>\<close> of
  \<^verbatim>\<open>src/RooUnfold.cxx\<close>, in the instantiation \<^verbatim>\<open>RooUnfoldT<TH1,TH2>\<close>
  wherever the source specialises a member (\<^verbatim>\<open>RunToys\<close>,
  \<^verbatim>\<open>RunBiasAsimovToys\<close>).

  \<^item> \<^verbatim>\<open>Double_t\<close> is \<open>real\<close>: rounding is not modelled. Where the source stores a
    quotient whose divisor it does not guard (the bias of \<^verbatim>\<open>CalculateBias\<close>), the
    value is a \<open>dbl\<close>, a real or \<open>NonFinite\<close> (an infinity or a NaN), and the run
    goes on as it does in C++. \<open>fdiv\<close>, which fails on a zero divisor instead of
    returning HOL's \<open>x / 0 = 0\<close>, is the division of \<^verbatim>\<open>Wunfold\<close>: that its guard keeps it
    from failing is proved, not built in.
  \<^item> \<^verbatim>\<open>TVectorD\<close> is a list of reals and \<^verbatim>\<open>TMatrixD\<close> a list of rows. ROOT
    creates both zero-filled, \<^verbatim>\<open>ResizeTo\<close> keeps the elements that stay in range
    and zero-fills the rest, and an element access outside the range is a ROOT
    run-time error: the model's accessors return \<open>Inl OutOfRange\<close> there.
  \<^item> The object's members are the fields of the record \<open>engine\<close>; every member
    function takes the engine and returns the new one, since all of them write
    the \<^verbatim>\<open>mutable\<close> cache. A C++ exception is the value \<open>Inl (RuntimeError msg)\<close>.
  \<^item> What the file calls but does not define (the virtual \<^verbatim>\<open>Unfold\<close> of the
    concrete algorithm, \<^verbatim>\<open>TDecompSVD\<close>, the random source, the response object's
    toy and folding, the default arguments declared in \<^verbatim>\<open>RooUnfold.h\<close>) is a
    field of the record \<open>env\<close>. The other virtual members (\<^verbatim>\<open>GetCov\<close>,
    \<^verbatim>\<open>GetErrors\<close>, \<^verbatim>\<open>GetWgt\<close>, \<^verbatim>\<open>GetSettings\<close>) are the ones this file defines.
  \<^item> A histogram is the pair of flat vectors that the conversion layer makes of
    it; the overflow and density arguments of the conversion are not modelled.
\<close>

subsection \<open>Errors, vectors and matrices\<close>

datatype error = RuntimeError string | OutOfRange | NotCompatible | NullPointer | NotFinite | OutOfFuel

type_synonym vec = "real list"
type_synonym mat = "real list list"

definition thenE :: "error + 'a \<Rightarrow> ('a \<Rightarrow> error + 'b) \<Rightarrow> error + 'b" where
  "thenE m f = (case m of Inl x \<Rightarrow> Inl x | Inr y \<Rightarrow> f y)"

definition zero_vec :: "nat \<Rightarrow> vec" where
  "zero_vec n = replicate n 0"

definition zero_mat :: "nat \<Rightarrow> nat \<Rightarrow> mat" where
  "zero_mat r c = replicate r (replicate c 0)"

definition vec_ResizeTo :: "nat \<Rightarrow> vec \<Rightarrow> vec" where
  "vec_ResizeTo n v = take n v @ replicate (n - length v) 0"

definition mat_ResizeTo :: "nat \<Rightarrow> nat \<Rightarrow> mat \<Rightarrow> mat" where
  "mat_ResizeTo r c m = map (vec_ResizeTo c) (take r m) @ replicate (r - length m) (replicate c 0)"

definition vget :: "'a list \<Rightarrow> nat \<Rightarrow> error + 'a" where
  "vget v i = (if i < length v then Inr (v ! i) else Inl OutOfRange)"

definition vset :: "'a list \<Rightarrow> nat \<Rightarrow> 'a \<Rightarrow> error + 'a list" where
  "vset v i x = (if i < length v then Inr (v[i := x]) else Inl OutOfRange)"

definition mget :: "'a list list \<Rightarrow> nat \<Rightarrow> nat \<Rightarrow> error + 'a" where
  "mget m i j = (if i < length m \<and> j < length (m ! i) then Inr (m ! i ! j) else Inl OutOfRange)"

definition mset :: "'a list list \<Rightarrow> nat \<Rightarrow> nat \<Rightarrow> 'a \<Rightarrow> error + 'a list list" where
  "mset m i j x =
     (if i < length m \<and> j < length (m ! i) then Inr (m[i := (m ! i)[j := x]]) else Inl OutOfRange)"

definition lget :: "'a list \<Rightarrow> nat \<Rightarrow> error + 'a" where
  "lget xs i = (if i < length xs then Inr (xs ! i) else Inl OutOfRange)"

definition fdiv :: "real \<Rightarrow> real \<Rightarrow> error + real" where
  "fdiv a b = (if b = 0 then Inl NotFinite else Inr (a / b))"

text \<open>
  A \<^verbatim>\<open>double\<close> that may have left the reals. A quotient by zero is an infinity or a
  NaN, according to the numerator and to the sign of the zero, which \<open>real\<close> does
  not have: both are \<open>NonFinite\<close>. A sum, difference or product with a non-finite
  operand is not finite, nor is the quotient of a non-finite value by a number,
  its absolute value or its square root; the square root of a negative number is
  a NaN.
\<close>

datatype dbl = Finite real | NonFinite

type_synonym dvec = "dbl list"
type_synonym dmat = "dbl list list"

definition dadd :: "dbl \<Rightarrow> dbl \<Rightarrow> dbl" where
  "dadd a b = (case (a, b) of (Finite x, Finite y) \<Rightarrow> Finite (x + y) | _ \<Rightarrow> NonFinite)"

definition dsub :: "dbl \<Rightarrow> dbl \<Rightarrow> dbl" where
  "dsub a b = (case (a, b) of (Finite x, Finite y) \<Rightarrow> Finite (x - y) | _ \<Rightarrow> NonFinite)"

definition dmul :: "dbl \<Rightarrow> dbl \<Rightarrow> dbl" where
  "dmul a b = (case (a, b) of (Finite x, Finite y) \<Rightarrow> Finite (x * y) | _ \<Rightarrow> NonFinite)"

definition ddiv :: "dbl \<Rightarrow> real \<Rightarrow> dbl" where
  "ddiv a b = (case a of Finite x \<Rightarrow> if b = 0 then NonFinite else Finite (x / b)
               | NonFinite \<Rightarrow> NonFinite)"

definition dabs :: "dbl \<Rightarrow> dbl" where
  "dabs a = (case a of Finite x \<Rightarrow> Finite \<bar>x\<bar> | NonFinite \<Rightarrow> NonFinite)"

definition dsqrt :: "dbl \<Rightarrow> dbl" where
  "dsqrt a = (case a of Finite x \<Rightarrow> if x < 0 then NonFinite else Finite (sqrt x)
              | NonFinite \<Rightarrow> NonFinite)"

definition zero_dvec :: "nat \<Rightarrow> dvec" where
  "zero_dvec n = replicate n (Finite 0)"

definition zero_dmat :: "nat \<Rightarrow> nat \<Rightarrow> dmat" where
  "zero_dmat r c = replicate r (replicate c (Finite 0))"

definition dvec_ResizeTo :: "nat \<Rightarrow> dvec \<Rightarrow> dvec" where
  "dvec_ResizeTo n v = take n v @ replicate (n - length v) (Finite 0)"

text \<open>
  \<^verbatim>\<open>for (i = lo; i < lo + k; i++) body\<close>, the loop state passed through; an error in
  the body ends the loop.
\<close>

primrec loop_from :: "nat \<Rightarrow> nat \<Rightarrow> (nat \<Rightarrow> 's \<Rightarrow> error + 's) \<Rightarrow> 's \<Rightarrow> error + 's" where
  "loop_from lo 0 body s = Inr s"
| "loop_from lo (Suc k) body s =
     (case body lo s of Inl x \<Rightarrow> Inl x | Inr s' \<Rightarrow> loop_from (Suc lo) k body s')"

definition for_loop :: "nat \<Rightarrow> (nat \<Rightarrow> 's \<Rightarrow> error + 's) \<Rightarrow> 's \<Rightarrow> error + 's" where
  "for_loop n body s = loop_from 0 n body s"

subsection \<open>Enumerations, histograms, the response object\<close>

datatype ErrorTreatment = kNoError | kErrors | kCovariance | kCovToy | kRooFit | kDefault

datatype SystematicsTreatment = kNoSystematics | kAll | kNoMeasured

datatype BiasMethod = kBiasEstimator | kBiasClosure | kBiasAsimov

text \<open>
  A histogram is what the conversion layer (\<^verbatim>\<open>h2v\<close>, \<^verbatim>\<open>h2ve\<close>) makes of it: the
  flat vector of bin contents and the flat vector of bin errors.
\<close>

record hist =
  h2v :: vec
  h2ve :: vec

record response =
  GetNbinsMeasured :: nat
  GetNbinsTruth :: nat
  UseOverflowStatus :: bool
  Htruth :: hist
  Hmeasured :: hist

subsection \<open>The cache\<close>

record Cache =
  minparm :: real
  maxparm :: real
  stepsizeparm :: real
  defaultparm :: real
  unfolded :: bool
  fail :: bool
  haveCov :: bool
  haveWgt :: bool
  have_err_mat :: bool
  haveBias :: bool
  haveErrors :: bool
  rec :: vec
  cov :: mat
  wgt :: mat
  variances :: vec
  err_mat :: mat
  bias :: dvec
  sigbias :: dvec
  vMes :: "vec option"
  eMes :: "vec option"
  covL :: "mat option"
  cache_covMes :: "mat option"

text \<open>
  \<^verbatim>\<open>Cache::Cache()\<close>. The assignment \<^verbatim>\<open>_cache = Cache()\<close> goes through
  \<^verbatim>\<open>Cache::operator=\<close>, which resizes every vector and matrix to the size of the
  right-hand side and copies every field: the cache becomes \<open>Cache_init\<close>.
\<close>

definition Cache_init :: Cache where
  "Cache_init =
     \<lparr> minparm = 0, maxparm = 0, stepsizeparm = 0, defaultparm = 0,
       unfolded = False, fail = False, haveCov = False, haveWgt = False,
       have_err_mat = False, haveBias = False, haveErrors = False,
       rec = zero_vec 1, cov = zero_mat 1 1, wgt = zero_mat 1 1, variances = zero_vec 1,
       err_mat = zero_mat 1 1, bias = zero_dvec 1, sigbias = zero_dvec 1,
       vMes = None, eMes = None, covL = None, cache_covMes = None \<rparr>"

subsection \<open>The engine\<close>

text \<open>
  \<open>n_unfold\<close> is not a member of the class: it counts the calls of the virtual
  \<^verbatim>\<open>Unfold()\<close>. \<open>rnd\<close> is the position in the stream of the member \<^verbatim>\<open>rnd\<close>.
\<close>

record engine =
  cache :: Cache
  withError :: ErrorTreatment
  res :: "response option"
  meas :: "hist option"
  nm :: nat
  nt :: nat
  verbose :: int
  overflow :: int
  dosys :: SystematicsTreatment
  covMes :: "mat option"
  NToys :: int
  n_unfold :: nat
  rnd :: nat

definition ClearCache :: "engine \<Rightarrow> engine" where
  "ClearCache e = e\<lparr>cache := Cache_init\<rparr>"

definition GetSettings :: "engine \<Rightarrow> engine" where
  "GetSettings e =
     e\<lparr>cache := (cache e)\<lparr>minparm := 0, maxparm := 0, stepsizeparm := 0, defaultparm := 0\<rparr>\<rparr>"

definition Init :: "engine \<Rightarrow> engine" where
  "Init e =
     GetSettings (e\<lparr>res := None, meas := None, nm := 0, nt := 0, verbose := 1, overflow := 0,
                     dosys := kNoSystematics, covMes := None, NToys := 50\<rparr>)"

definition Reset :: "engine \<Rightarrow> engine" where
  "Reset e = Init (ClearCache e)"

definition SetResponse :: "response option \<Rightarrow> engine \<Rightarrow> error + engine" where
  "SetResponse r e =
     (case r of
        None \<Rightarrow> Inl (RuntimeError ''cannot set response to invalid value!'')
      | Some r' \<Rightarrow>
          Inr (e\<lparr>res := Some r',
                 overflow := (if UseOverflowStatus r' then 1 else 0),
                 nm := GetNbinsMeasured r',
                 nt := GetNbinsTruth r'\<rparr>))"

text \<open>\<^verbatim>\<open>SetMeasured (const Hist* meas)\<close>.\<close>

definition SetMeasured :: "hist \<Rightarrow> engine \<Rightarrow> engine" where
  "SetMeasured h e = e\<lparr>meas := Some h, cache := Cache_init\<rparr>"

text \<open>
  \<^verbatim>\<open>SetMeasured (const TVectorD& meas, const TVectorD& err)\<close>: it has \<^verbatim>\<open>createHist\<close> of
  the conversion layer, the first argument here, build the new histogram from
  \<^verbatim>\<open>meas\<close> alone, on the axis of the response's measured histogram, and does not
  touch the cache.
\<close>

definition SetMeasured_vec :: "(vec \<Rightarrow> hist) \<Rightarrow> vec \<Rightarrow> vec \<Rightarrow> engine \<Rightarrow> error + engine" where
  "SetMeasured_vec createHist v err e =
     (case res e of None \<Rightarrow> Inl NullPointer | Some r \<Rightarrow> Inr (e\<lparr>meas := Some (createHist v)\<rparr>))"

definition SetMeasuredCov :: "mat \<Rightarrow> engine \<Rightarrow> engine" where
  "SetMeasuredCov c e = e\<lparr>cache := Cache_init, covMes := Some c\<rparr>"

definition Setup :: "response option \<Rightarrow> hist \<Rightarrow> engine \<Rightarrow> error + engine" where
  "Setup r h e = thenE (SetResponse r (Reset e)) (\<lambda>e1. Inr (SetMeasured h e1))"

text \<open>
  \<^verbatim>\<open>ForceRecalculation\<close> also clears the response's own cache, through the pointer
  \<^verbatim>\<open>_res\<close>; that cache is not part of the model, the null pointer is.
\<close>

definition ForceRecalculation :: "engine \<Rightarrow> error + engine" where
  "ForceRecalculation e =
     (case res e of None \<Rightarrow> Inl NullPointer | Some r \<Rightarrow> Inr (e\<lparr>cache := Cache_init\<rparr>))"

definition IncludeSystematics :: "SystematicsTreatment \<Rightarrow> engine \<Rightarrow> engine" where
  "IncludeSystematics d e = (if d \<noteq> dosys e then (ClearCache e)\<lparr>dosys := d\<rparr> else e)"

text \<open>
  The default constructor \<^verbatim>\<open>RooUnfoldT()\<close> runs \<^verbatim>\<open>Init()\<close> on a fresh object. The
  initial value of \<^verbatim>\<open>_withError\<close> is declared in the header and is a parameter here.
\<close>

definition RooUnfoldT_new :: "ErrorTreatment \<Rightarrow> engine" where
  "RooUnfoldT_new we =
     Init \<lparr> cache = Cache_init, withError = we, res = None, meas = None, nm = 0, nt = 0,
            verbose = 1, overflow = 0, dosys = kNoSystematics, covMes = None, NToys = 50,
            n_unfold = 0, rnd = 0 \<rparr>"

text \<open>
  A response with the given truth and measured vectors, one bin per entry, and
  Poisson errors.
\<close>

definition response_of :: "vec \<Rightarrow> vec \<Rightarrow> response" where
  "response_of truth measured =
     \<lparr> GetNbinsMeasured = length measured, GetNbinsTruth = length truth,
       UseOverflowStatus = False,
       Htruth = \<lparr>h2v = truth, h2ve = map sqrt truth\<rparr>,
       Hmeasured = \<lparr>h2v = measured, h2ve = map sqrt measured\<rparr> \<rparr>"

subsection \<open>What the file calls but does not define\<close>

text \<open>
  \<^item> \<open>alg_Unfold\<close>: the virtual \<^verbatim>\<open>Unfold()\<close> of the concrete algorithm (the base
    class's own is \<open>Unfold\<close> below);
  \<^item> \<open>svd_Condition\<close>, \<open>svd_Invert\<close>: \<^verbatim>\<open>TDecompSVD::Condition\<close> and
    \<^verbatim>\<open>TDecompSVD::Invert\<close>, the latter with its success flag;
  \<^item> \<open>randomize\<close>: \<^verbatim>\<open>RooUnfolding::randomize\<close> at a position of the random stream;
  \<^item> \<open>res_RunToy\<close>, \<open>res_Vfolded\<close>: the response object's \<^verbatim>\<open>RunToy\<close> and \<^verbatim>\<open>Vfolded\<close>;
  \<^item> \<open>asimovClone\<close>: \<^verbatim>\<open>RooUnfolding::asimovClone\<close>;
  \<^item> \<open>dflt_EunfoldV\<close>, \<open>dflt_Chi2\<close>, \<open>dflt_getWeights\<close>, \<open>init_withError\<close>: the
    default arguments of \<^verbatim>\<open>EunfoldV\<close>, \<^verbatim>\<open>Chi2\<close> and \<^verbatim>\<open>UnfoldWithErrors\<close> and the
    initial value of \<^verbatim>\<open>_withError\<close>, all declared in \<^verbatim>\<open>RooUnfold.h\<close>.
\<close>

record env =
  alg_Unfold :: "engine \<Rightarrow> error + engine"
  svd_Condition :: "mat \<Rightarrow> real"
  svd_Invert :: "mat \<Rightarrow> bool \<times> mat"
  randomize :: "nat \<Rightarrow> vec \<Rightarrow> vec"
  res_RunToy :: "nat \<Rightarrow> response \<Rightarrow> response"
  res_Vfolded :: "response \<Rightarrow> vec \<Rightarrow> vec"
  asimovClone :: "hist \<Rightarrow> hist"
  dflt_EunfoldV :: ErrorTreatment
  dflt_Chi2 :: ErrorTreatment
  dflt_getWeights :: bool
  init_withError :: ErrorTreatment

subsection \<open>Measured vector, errors and covariance\<close>

definition Vmeasured :: "engine \<Rightarrow> error + vec \<times> engine" where
  "Vmeasured e =
     (case vMes (cache e) of
        Some v \<Rightarrow> Inr (v, e)
      | None \<Rightarrow>
          (case (meas e, res e) of
             (Some h, Some r) \<Rightarrow> Inr (h2v h, e\<lparr>cache := (cache e)\<lparr>vMes := Some (h2v h)\<rparr>\<rparr>)
           | _ \<Rightarrow> Inl NullPointer))"

definition Emeasured :: "engine \<Rightarrow> error + vec \<times> engine" where
  "Emeasured e =
     (case eMes (cache e) of
        Some v \<Rightarrow> Inr (v, e)
      | None \<Rightarrow>
          (case covMes e of
             Some c \<Rightarrow>
               thenE (for_loop (nm e)
                        (\<lambda>i v. thenE (mget (cov (cache e)) i i)
                                 (\<lambda>x. if x > 0 then vset v i (sqrt x) else Inr v))
                        (zero_vec (nm e)))
                 (\<lambda>v. Inr (v, e\<lparr>cache := (cache e)\<lparr>eMes := Some v\<rparr>\<rparr>))
           | None \<Rightarrow>
               (case (meas e, res e) of
                  (Some h, Some r) \<Rightarrow> Inr (h2ve h, e\<lparr>cache := (cache e)\<lparr>eMes := Some (h2ve h)\<rparr>\<rparr>)
                | _ \<Rightarrow> Inl NullPointer)))"

definition GetMeasuredCov :: "engine \<Rightarrow> error + mat \<times> engine" where
  "GetMeasuredCov e =
     (case covMes e of
        Some c \<Rightarrow> Inr (c, e)
      | None \<Rightarrow>
          thenE (Emeasured e) (\<lambda>(err, e1).
          thenE (for_loop (nm e1)
                   (\<lambda>i m. thenE (vget err i) (\<lambda>x. mset m i i (x * x)))
                   (zero_mat (nm e1) (nm e1)))
            (\<lambda>m. Inr (m, e1\<lparr>cache := (cache e1)\<lparr>cache_covMes := Some m\<rparr>\<rparr>))))"

subsection \<open>The base class's unfolding and error propagation\<close>

text \<open>\<^verbatim>\<open>RooUnfoldT::Unfold()\<close>, the dummy unfolding that copies the input.\<close>

definition Unfold :: "engine \<Rightarrow> error + engine" where
  "Unfold e =
     (let e1 = e\<lparr>cache := (cache e)\<lparr>rec := vec_ResizeTo (nt e) (rec (cache e))\<rparr>\<rparr>;
          nb = (if nm e < nt e then nm e else nt e)
      in thenE (Vmeasured e1) (\<lambda>(vmeas, e2).
         thenE (for_loop nb (\<lambda>i r. thenE (vget vmeas i) (\<lambda>x. vset r i x)) (rec (cache e2)))
           (\<lambda>r. Inr (e2\<lparr>cache := (cache e2)\<lparr>rec := r, unfolded := True\<rparr>\<rparr>))))"

text \<open>
  A call \<^verbatim>\<open>this->Unfold()\<close>: the algorithm's \<^verbatim>\<open>Unfold\<close>, counted. \<^verbatim>\<open>Unfold\<close> is a
  \<^verbatim>\<open>const\<close> member function: of the engine it can change what the \<^verbatim>\<open>const\<close> members of
  this file change (the cache, \<^verbatim>\<open>_withError\<close>, the response object behind its
  pointer, the random stream) and nothing else.
\<close>

definition call_Unfold :: "env \<Rightarrow> engine \<Rightarrow> error + engine" where
  "call_Unfold ev e =
     thenE (alg_Unfold ev e) (\<lambda>e1.
       Inr (e\<lparr>cache := cache e1, withError := withError e1, res := res e1, rnd := rnd e1,
              n_unfold := Suc (n_unfold e)\<rparr>))"

definition GetCov :: "engine \<Rightarrow> error + engine" where
  "GetCov e =
     thenE (GetMeasuredCov e) (\<lambda>(covmeas, e1).
       let nb = min (nm e1) (nt e1);
           c0 = mat_ResizeTo (nt e1) (nt e1) (cov (cache e1))
       in thenE (for_loop nb
                   (\<lambda>i c. for_loop nb (\<lambda>j c'. thenE (mget covmeas i j) (\<lambda>x. mset c' i j x)) c)
                   c0)
            (\<lambda>c. Inr (e1\<lparr>cache := (cache e1)\<lparr>cov := c, haveCov := True\<rparr>\<rparr>)))"

definition GetErrorsCovariance :: "engine \<Rightarrow> error + engine" where
  "GetErrorsCovariance e =
     (if withError e \<noteq> kErrors then Inl (RuntimeError ''unknown error propagation method!'')
      else
        thenE (if \<not> haveCov (cache e) then GetCov e else Inr e) (\<lambda>e1.
          if \<not> haveCov (cache e1) then Inr e1
          else
            thenE (for_loop (nt e1)
                     (\<lambda>i v. thenE (mget (cov (cache e1)) i i) (\<lambda>x. vset v i x))
                     (vec_ResizeTo (nt e1) (variances (cache e1))))
              (\<lambda>v. Inr (e1\<lparr>cache := (cache e1)\<lparr>variances := v, haveErrors := True\<rparr>\<rparr>))))"

definition GetErrors :: "engine \<Rightarrow> error + engine" where
  "GetErrors e = GetErrorsCovariance e"

text \<open>
  \<^verbatim>\<open>InvertMatrix (mat, inv, name, verbose)\<close> returns the status and leaves the inverse
  in \<^verbatim>\<open>inv\<close>; the pair is (status, \<^verbatim>\<open>inv\<close>). What \<^verbatim>\<open>verbose\<close> adds is printed only.
\<close>

definition InvertMatrix :: "env \<Rightarrow> mat \<Rightarrow> int \<times> mat" where
  "InvertMatrix ev m =
     (let cond_max = 10 ^ 17;
          cond = svd_Condition ev m;
          ok = (if cond < 0 then 2 else if cond > cond_max then 3 else 1);
          (okinv, minv) = svd_Invert ev m
      in if \<not> okinv then (0, minv) else (ok, minv))"

definition GetWgt :: "env \<Rightarrow> engine \<Rightarrow> error + engine" where
  "GetWgt ev e =
     thenE (if \<not> haveCov (cache e) then GetCov e else Inr e) (\<lambda>e1.
       if \<not> haveCov (cache e1) then Inr e1
       else
         (let (ok, minv) = InvertMatrix ev (cov (cache e1));
              e2 = e1\<lparr>cache := (cache e1)\<lparr>wgt := minv\<rparr>\<rparr>
          in if ok = 0 then Inr e2 else Inr (e2\<lparr>cache := (cache e2)\<lparr>haveWgt := True\<rparr>\<rparr>)))"

subsection \<open>Lazy evaluation and the error treatments\<close>

text \<open>
  \<^verbatim>\<open>UnfoldWithErrors\<close> calls \<^verbatim>\<open>GetErrMat\<close>, whose toys call \<^verbatim>\<open>EunfoldV\<close> and \<^verbatim>\<open>Chi2\<close>
  and so \<^verbatim>\<open>UnfoldWithErrors\<close> again. The functions of this subsection and the next
  take the \<^verbatim>\<open>GetErrMat\<close> they call as their first argument; \<open>GetErrMat\<close> below ties
  the knot, with one unit of fuel for every nesting of toys.
\<close>

definition UnfoldWithErrors ::
  "(engine \<Rightarrow> error + engine) \<Rightarrow> env \<Rightarrow> ErrorTreatment \<Rightarrow> bool \<Rightarrow> engine \<Rightarrow> error + bool \<times> engine"
where
  "UnfoldWithErrors getErrMat ev we getWeights e =
     thenE (if \<not> unfolded (cache e) then
              (if fail (cache e) then Inr (False, e)
               else
                 thenE (call_Unfold ev e) (\<lambda>e1.
                   if \<not> unfolded (cache e1)
                   then Inr (False, e1\<lparr>cache := (cache e1)\<lparr>fail := True\<rparr>\<rparr>)
                   else Inr (True, e1)))
            else Inr (True, e))
       (\<lambda>(go, e1).
          if \<not> go then Inr (False, e1)
          else
            (let e2 = (if withError e1 \<noteq> we
                       then e1\<lparr>cache := (cache e1)\<lparr>haveErrors := False\<rparr>\<rparr> else e1)
                      \<lparr>withError := we\<rparr>
             in thenE
                  (if getWeights \<and> (we = kErrors \<or> we = kCovariance) then
                     thenE (if \<not> haveWgt (cache e2) then GetWgt ev e2 else Inr e2)
                       (\<lambda>e3. Inr (haveWgt (cache e3), e3))
                   else
                     (case we of
                        kErrors \<Rightarrow>
                          thenE (if \<not> haveErrors (cache e2) then GetErrors e2 else Inr e2)
                            (\<lambda>e3. Inr (haveErrors (cache e3), e3))
                      | kRooFit \<Rightarrow>
                          thenE (if \<not> haveErrors (cache e2) then GetErrors e2 else Inr e2)
                            (\<lambda>e3. Inr (haveErrors (cache e3), e3))
                      | kCovariance \<Rightarrow>
                          thenE (if \<not> haveCov (cache e2) then GetCov e2 else Inr e2)
                            (\<lambda>e3. Inr (haveCov (cache e3), e3))
                      | kCovToy \<Rightarrow>
                          thenE (if \<not> have_err_mat (cache e2) then getErrMat e2 else Inr e2)
                            (\<lambda>e3. Inr (have_err_mat (cache e3), e3))
                      | _ \<Rightarrow> Inr (True, e2)))
                  (\<lambda>(ok, e3).
                     Inr (ok, if \<not> ok then e3\<lparr>cache := (cache e3)\<lparr>fail := True\<rparr>\<rparr> else e3))))"

definition Vunfold :: "env \<Rightarrow> engine \<Rightarrow> error + vec \<times> engine" where
  "Vunfold ev e =
     thenE (if \<not> unfolded (cache e) then
              thenE (if \<not> fail (cache e) then call_Unfold ev e else Inr e) (\<lambda>e1.
                if \<not> unfolded (cache e1) then
                  (let e2 = e1\<lparr>cache := (cache e1)\<lparr>fail := True\<rparr>\<rparr>
                   in Inr (if nt e2 > 0 \<and> length (rec (cache e2)) = 0
                           then e2\<lparr>cache := (cache e2)\<lparr>rec := vec_ResizeTo (nt e2) (rec (cache e2))\<rparr>\<rparr>
                           else e2))
                else Inr e1)
            else Inr e)
       (\<lambda>e3. Inr (rec (cache e3), e3))"

definition EunfoldV ::
  "(engine \<Rightarrow> error + engine) \<Rightarrow> env \<Rightarrow> ErrorTreatment \<Rightarrow> engine \<Rightarrow> error + vec \<times> engine"
where
  "EunfoldV getErrMat ev we e =
     thenE (UnfoldWithErrors getErrMat ev we (dflt_getWeights ev) e) (\<lambda>(ok, e1).
       let Eunfold_v = zero_vec (nt e) in
       if \<not> ok then Inr (Eunfold_v, e1)
       else
         thenE
           (case we of
              kNoError \<Rightarrow>
                for_loop (nt e1)
                  (\<lambda>i v. thenE (vget (rec (cache e1)) i) (\<lambda>x. vset v i (sqrt \<bar>x\<bar>))) Eunfold_v
            | kErrors \<Rightarrow>
                for_loop (nt e1)
                  (\<lambda>i v. thenE (vget (variances (cache e1)) i) (\<lambda>x. vset v i (sqrt \<bar>x\<bar>))) Eunfold_v
            | kRooFit \<Rightarrow>
                for_loop (nt e1)
                  (\<lambda>i v. thenE (vget (variances (cache e1)) i) (\<lambda>x. vset v i (sqrt \<bar>x\<bar>))) Eunfold_v
            | kCovariance \<Rightarrow>
                for_loop (nt e1)
                  (\<lambda>i v. thenE (mget (cov (cache e1)) i i) (\<lambda>x. vset v i (sqrt \<bar>x\<bar>))) Eunfold_v
            | kCovToy \<Rightarrow>
                for_loop (nt e1)
                  (\<lambda>i v. thenE (mget (err_mat (cache e1)) i i) (\<lambda>x. vset v i (sqrt \<bar>x\<bar>))) Eunfold_v
            | kDefault \<Rightarrow>
                Inl (RuntimeError ''Error in RooUnfoldT::EunfoldV, unrecognised error method''))
           (\<lambda>v. Inr (v, e1)))"

text \<open>
  \<^verbatim>\<open>Wunfold_m = _cache._wgt\<close> is ROOT's matrix assignment, an error unless the two
  matrices have the same shape.
\<close>

definition Wunfold ::
  "(engine \<Rightarrow> error + engine) \<Rightarrow> env \<Rightarrow> ErrorTreatment \<Rightarrow> engine \<Rightarrow> error + mat \<times> engine"
where
  "Wunfold getErrMat ev we e =
     thenE (UnfoldWithErrors getErrMat ev we True e) (\<lambda>(ok, e1).
       let Wunfold_m = zero_mat (nt e) (nt e) in
       if \<not> ok then Inr (Wunfold_m, e1)
       else
         thenE
           (case we of
              kNoError \<Rightarrow>
                for_loop (nt e1)
                  (\<lambda>i W. thenE (vget (rec (cache e1)) i)
                            (\<lambda>x. if x \<noteq> 0 then thenE (fdiv 1 x) (\<lambda>q. mset W i i q)
                                  else Inr W))
                  Wunfold_m
            | kErrors \<Rightarrow>
                for_loop (nt e1)
                  (\<lambda>i W. thenE (mget (wgt (cache e1)) i i) (\<lambda>x. mset W i i x)) Wunfold_m
            | kRooFit \<Rightarrow>
                for_loop (nt e1)
                  (\<lambda>i W. thenE (mget (wgt (cache e1)) i i) (\<lambda>x. mset W i i x)) Wunfold_m
            | kCovariance \<Rightarrow>
                (if map length (wgt (cache e1)) = map length Wunfold_m
                 then Inr (wgt (cache e1)) else Inl NotCompatible)
            | kCovToy \<Rightarrow> Inr (snd (InvertMatrix ev (err_mat (cache e1))))
            | kDefault \<Rightarrow>
                Inl (RuntimeError ''Error in RooUnfoldT::Wunfold, unrecognised error method''))
           (\<lambda>W. Inr (W, e1)))"

text \<open>
  Modelled from the spec: \<^verbatim>\<open>subtract\<close> and \<^verbatim>\<open>ABAT\<close> of \<^verbatim>\<open>RooUnfoldHelpers\<close>, which is
  not among the sources. The spec has \<^verbatim>\<open>Chi2\<close> compute the "residual between cached
  result and a reference truth vector" and, for the covariance-based treatments,
  "the quadratic form" of the residual with the weight matrix. Both are ROOT
  vector operations, errors on operands of different sizes.
\<close>

definition subtract :: "vec \<Rightarrow> vec \<Rightarrow> error + vec" where
  "subtract a b = (if length a = length b then Inr (map2 (-) a b) else Inl NotCompatible)"

definition ABAT :: "vec \<Rightarrow> mat \<Rightarrow> error + real" where
  "ABAT r W =
     (if map length W = replicate (length r) (length r)
      then Inr (\<Sum>i\<leftarrow>[0..<length r]. \<Sum>j\<leftarrow>[0..<length r]. r ! i * (W ! i ! j) * r ! j)
      else Inl NotCompatible)"

definition Chi2 ::
  "(engine \<Rightarrow> error + engine) \<Rightarrow> env \<Rightarrow> vec \<Rightarrow> ErrorTreatment \<Rightarrow> engine \<Rightarrow> error + real \<times> engine"
where
  "Chi2 getErrMat ev hTrue DoChi2 e =
     thenE (UnfoldWithErrors getErrMat ev DoChi2 (dflt_getWeights ev) e) (\<lambda>(ok, e1).
       if \<not> ok then Inr (- 1, e1)
       else
         thenE (subtract (rec (cache e1)) hTrue) (\<lambda>r.
           if DoChi2 = kCovariance \<or> DoChi2 = kCovToy then
             thenE (Wunfold getErrMat ev DoChi2 e1) (\<lambda>(W, e2).
               if fail (cache e2) then Inr (- 1, e2)
               else if length r \<noteq> nt e2 then Inl NotCompatible
               else thenE (ABAT r W) (\<lambda>chi2. Inr (chi2, e2)))
           else
             thenE (EunfoldV getErrMat ev DoChi2 e1) (\<lambda>(eunfold, e2).
               if fail (cache e2) then Inr (- 1, e2)
               else
                 thenE (for_loop (nt e2)
                          (\<lambda>i chi2.
                             thenE (vget eunfold i) (\<lambda>err.
                               if err \<le> 0 then Inr chi2
                               else thenE (vget r i) (\<lambda>ri.
                                      let ypull = ri / err in Inr (chi2 + ypull * ypull))))
                          0)
                   (\<lambda>chi2. Inr (chi2, e2)))))"

subsection \<open>Toys\<close>

definition randomize_vMes :: "env \<Rightarrow> engine \<Rightarrow> error + engine" where
  "randomize_vMes ev e =
     (case vMes (cache e) of
        None \<Rightarrow> Inl NullPointer
      | Some v \<Rightarrow>
          Inr (e\<lparr>cache := (cache e)\<lparr>vMes := Some (randomize ev (rnd e) v)\<rparr>, rnd := Suc (rnd e)\<rparr>))"

definition response_RunToy :: "env \<Rightarrow> engine \<Rightarrow> error + engine" where
  "response_RunToy ev e =
     (case res e of
        None \<Rightarrow> Inl NullPointer
      | Some r \<Rightarrow> Inr (e\<lparr>res := Some (res_RunToy ev (rnd e) r), rnd := Suc (rnd e)\<rparr>))"

text \<open>
  \<^verbatim>\<open>RooUnfoldT<TH1,TH2>::RunToys\<close>. The result is the three vectors the source
  appends to (\<^verbatim>\<open>vx\<close>, \<^verbatim>\<open>vxe\<close>, \<^verbatim>\<open>chi2\<close>, empty on entry) and the engine.
\<close>

definition RunToys ::
  "(engine \<Rightarrow> error + engine) \<Rightarrow> env \<Rightarrow> int \<Rightarrow> engine
     \<Rightarrow> error + (vec list \<times> vec list \<times> real list) \<times> engine"
where
  "RunToys getErrMat ev ntoys e =
     (let errorType = withError e;
          e0 = e\<lparr>withError := kDefault\<rparr>
      in thenE
           (for_loop (nat ntoys)
              (\<lambda>i (vx, vxe, chi2, e1).
                 thenE (ForceRecalculation e1) (\<lambda>e2.
                 thenE (Vmeasured e2) (\<lambda>(vmes, e3).
                 thenE (if dosys e3 \<noteq> kNoMeasured then randomize_vMes ev e3 else Inr e3) (\<lambda>e4.
                 thenE (if dosys e4 = kAll then response_RunToy ev e4 else Inr e4) (\<lambda>e5.
                 thenE (Vunfold ev e5) (\<lambda>(x, e6).
                 if errorType \<noteq> kNoError then
                   thenE (EunfoldV getErrMat ev (dflt_EunfoldV ev) e6) (\<lambda>(xe, e7).
                   thenE (case res e7 of
                            None \<Rightarrow> Inl NullPointer
                          | Some r \<Rightarrow> Chi2 getErrMat ev (h2v (Htruth r)) (dflt_Chi2 ev) e7)
                     (\<lambda>(c, e8). Inr (vx @ [x], vxe @ [xe], chi2 @ [c], e8)))
                 else Inr (vx @ [x], vxe, chi2, e6)))))))
              ([], [], [], e0))
           (\<lambda>(vx, vxe, chi2, e1).
              thenE (ForceRecalculation e1) (\<lambda>e2.
                Inr ((vx, vxe, chi2), e2\<lparr>withError := errorType\<rparr>))))"

text \<open>
  \<^verbatim>\<open>RunToy (x, xe)\<close>: the chi2, \<^verbatim>\<open>x\<close> and \<^verbatim>\<open>xe\<close>. Reading \<^verbatim>\<open>vxe[0]\<close> or \<^verbatim>\<open>chi2[0]\<close> of an
  empty \<^verbatim>\<open>std::vector\<close> is out of range.
\<close>

definition RunToy ::
  "(engine \<Rightarrow> error + engine) \<Rightarrow> env \<Rightarrow> engine \<Rightarrow> error + (real \<times> vec \<times> vec) \<times> engine"
where
  "RunToy getErrMat ev e =
     thenE (RunToys getErrMat ev 1 e) (\<lambda>((vx, vxe, chi2), e1).
       thenE (lget vx 0) (\<lambda>x.
       thenE (lget vxe 0) (\<lambda>xe.
       thenE (lget chi2 0) (\<lambda>c. Inr ((c, x, xe), e1)))))"

text \<open>The body of \<^verbatim>\<open>GetErrMat\<close>, over the \<^verbatim>\<open>GetErrMat\<close> that its toys call.\<close>

definition GetErrMat_body ::
  "(engine \<Rightarrow> error + engine) \<Rightarrow> env \<Rightarrow> engine \<Rightarrow> error + engine"
where
  "GetErrMat_body getErrMat ev e =
     (if NToys e \<le> 1 then Inr e
      else
        (let e0 = e\<lparr>cache := (cache e)\<lparr>err_mat := mat_ResizeTo (nt e) (nt e) (err_mat (cache e))\<rparr>\<rparr>
         in thenE
              (for_loop (nat (NToys e0))
                 (\<lambda>k (xisum, xijsum, e1).
                    thenE (RunToy getErrMat ev e1) (\<lambda>((c, x, xe), e2).
                    thenE (for_loop (nt e2)
                             (\<lambda>i (xisum1, xijsum1).
                                thenE (vget x i) (\<lambda>xi.
                                thenE (vget xisum1 i) (\<lambda>si.
                                thenE (vset xisum1 i (si + xi)) (\<lambda>xisum2.
                                thenE (for_loop (nt e2)
                                         (\<lambda>j m. thenE (vget x j) (\<lambda>xj.
                                                 thenE (mget m i j) (\<lambda>sij.
                                                 mset m i j (sij + xi * xj))))
                                         xijsum1)
                                  (\<lambda>xijsum2. Inr (xisum2, xijsum2))))))
                             (xisum, xijsum))
                      (\<lambda>(xisum3, xijsum3). Inr (xisum3, xijsum3, e2))))
                 (zero_vec (nt e0), zero_mat (nt e0) (nt e0), e0))
              (\<lambda>(xisum, xijsum, e1).
                 thenE (for_loop (nt e1)
                          (\<lambda>i m. for_loop (nt e1)
                                    (\<lambda>j m'.
                                       thenE (mget xijsum i j) (\<lambda>sij.
                                       thenE (vget xisum i) (\<lambda>si.
                                       thenE (vget xisum j) (\<lambda>sj.
                                       mset m' i j
                                         ((sij - (si * sj) / real_of_int (NToys e1))
                                          / real_of_int (NToys e1 - 1))))))
                                    m)
                          (err_mat (cache e1)))
                   (\<lambda>m. Inr (e1\<lparr>cache := (cache e1)\<lparr>err_mat := m, have_err_mat := True\<rparr>\<rparr>)))))"

text \<open>
  \<^verbatim>\<open>GetErrMat\<close>, with fuel for the nesting: a toy of \<^verbatim>\<open>GetErrMat\<close> reaches \<^verbatim>\<open>GetErrMat\<close>
  again when a default treatment of the header is the toy covariance.
\<close>

primrec GetErrMat :: "nat \<Rightarrow> env \<Rightarrow> engine \<Rightarrow> error + engine" where
  "GetErrMat 0 ev e = Inl OutOfFuel"
| "GetErrMat (Suc n) ev e = GetErrMat_body (GetErrMat n ev) ev e"

subsection \<open>Bias\<close>

text \<open>
  \<^verbatim>\<open>RooUnfoldT<TH1,TH2>::RunBiasAsimovToys\<close>; the result is \<^verbatim>\<open>vbias\<close> (empty on entry)
  and the engine. \<^verbatim>\<open>vtruth - Vunfold()\<close> is ROOT's vector difference.
\<close>

definition RunBiasAsimovToys :: "env \<Rightarrow> int \<Rightarrow> engine \<Rightarrow> error + vec list \<times> engine" where
  "RunBiasAsimovToys ev ntoys e =
     thenE
       (for_loop (nat ntoys)
          (\<lambda>i (vbias, e1).
             thenE (ForceRecalculation e1) (\<lambda>e2.
             thenE (Vmeasured e2) (\<lambda>(vmes, e3).
             thenE (if dosys e3 \<noteq> kNoMeasured then randomize_vMes ev e3 else Inr e3) (\<lambda>e4.
             thenE (if dosys e4 = kAll then response_RunToy ev e4 else Inr e4) (\<lambda>e5.
             case res e5 of
               None \<Rightarrow> Inl NullPointer
             | Some r \<Rightarrow>
                 (let vtruth = h2v (Htruth r) in
                  for_loop (nat ntoys)
                    (\<lambda>j (vbias1, e6).
                       let e7 = e6\<lparr>cache := (cache e6)\<lparr>vMes := Some (res_Vfolded ev r (h2v (Htruth r)))\<rparr>\<rparr>
                       in thenE (randomize_vMes ev e7) (\<lambda>e8.
                          thenE (Vunfold ev e8) (\<lambda>(u, e9).
                          thenE (subtract vtruth u) (\<lambda>d. Inr (vbias1 @ [d], e9)))))
                    (vbias, e5)))))))
          ([], e))
       (\<lambda>(vbias, e1). thenE (ForceRecalculation e1) (\<lambda>e2. Inr (vbias, e2)))"

text \<open>
  \<^verbatim>\<open>New (alg, res, meas, regparm)\<close> constructs an object of the algorithm's class
  from the response and the measured histogram: the constructor runs \<^verbatim>\<open>Init()\<close> and
  \<^verbatim>\<open>Setup (res, meas)\<close>. The algorithm itself is \<open>alg_Unfold\<close> of the environment.
\<close>

definition New :: "env \<Rightarrow> response \<Rightarrow> hist \<Rightarrow> error + engine" where
  "New ev r h = Setup (Some r) h (RooUnfoldT_new (init_withError ev))"

text \<open>
  The three branches of \<^verbatim>\<open>CalculateBias\<close>; each returns the new bias and sigbias.
  The estimator divides by the truth under the guard \<^verbatim>\<open>if (truth[i])\<close>. The closure
  branch divides by the toy's value under a guard on the toy's error and by
  \<^verbatim>\<open>ntoys\<close>, the Asimov branch by the number \<^verbatim>\<open>n\<close> of deviations and by \<^verbatim>\<open>n - 1\<close>, an
  unsigned \<^verbatim>\<open>size_t\<close> that wraps at \<^verbatim>\<open>n = 0\<close>: their quotients are \<open>dbl\<close>.
\<close>

definition bias_Estimator ::
  "(engine \<Rightarrow> error + engine) \<Rightarrow> env \<Rightarrow> nat \<Rightarrow> vec \<Rightarrow> vec \<Rightarrow> dvec \<times> dvec \<Rightarrow> engine
     \<Rightarrow> error + dvec \<times> dvec"
where
  "bias_Estimator getErrMat ev n truth truthE bs toyFactory =
     thenE (Vunfold ev toyFactory) (\<lambda>(unfold, tf1).
     thenE (EunfoldV getErrMat ev (dflt_EunfoldV ev) tf1) (\<lambda>(unfoldE, tf2).
       for_loop n
         (\<lambda>i (b, s).
            thenE (vget truth i) (\<lambda>t.
            thenE (vget unfold i) (\<lambda>u.
            thenE (vget truthE i) (\<lambda>te.
            thenE (vget unfoldE i) (\<lambda>ue.
              if t \<noteq> 0 then
                thenE (vset b i (Finite ((u - t) / t))) (\<lambda>b'.
                thenE (vset s i (Finite (sqrt (te * te + ue * ue) / t))) (\<lambda>s'. Inr (b', s')))
              else
                thenE (vset b i (Finite (u - t))) (\<lambda>b'.
                thenE (vset s i (Finite (sqrt (te * te + ue * ue)))) (\<lambda>s'. Inr (b', s'))))))))
         bs))"

definition bias_Closure ::
  "(engine \<Rightarrow> error + engine) \<Rightarrow> env \<Rightarrow> int \<Rightarrow> nat \<Rightarrow> vec \<Rightarrow> dvec \<times> dvec \<Rightarrow> engine
     \<Rightarrow> error + dvec \<times> dvec"
where
  "bias_Closure getErrMat ev ntoys n truth bs toyFactory =
     thenE (RunToys getErrMat ev ntoys toyFactory) (\<lambda>((toy_unfold, toy_error, chi), tf1).
     thenE (for_loop (nat ntoys)
              (\<lambda>i (pull_results, bias1).
                 thenE (lget toy_unfold i) (\<lambda>u.
                   for_loop (length u)
                     (\<lambda>j (P, b).
                        thenE (lget toy_error i) (\<lambda>er.
                        thenE (vget er j) (\<lambda>ej.
                          if ej \<noteq> 0 then
                            thenE (vget u j) (\<lambda>uj.
                            thenE (vget truth j) (\<lambda>tj.
                            let pull = ddiv (Finite (uj - tj)) uj in
                            thenE (mset P i j pull) (\<lambda>P'.
                            thenE (vget b j) (\<lambda>bj.
                            thenE (vset b j (dadd bj pull)) (\<lambda>b'. Inr (P', b'))))))
                          else Inr (P, b))))
                     (pull_results, bias1)))
              (zero_dmat (nat ntoys) n, zero_dvec n))
       (\<lambda>(pull_results, bias1).
     thenE (for_loop n
              (\<lambda>i b. thenE (vget bias1 i) (\<lambda>x. vset b i (ddiv x (real_of_int ntoys))))
              (fst bs))
       (\<lambda>cbias.
     thenE (for_loop n
              (\<lambda>j s.
                 thenE (for_loop (nat ntoys)
                          (\<lambda>i sum2.
                             thenE (mget pull_results i j) (\<lambda>p.
                             thenE (vget cbias j) (\<lambda>m.
                               let val = dsub p m in Inr (dadd sum2 (dmul val val)))))
                          (Finite 0))
                   (\<lambda>sum2.
                      if ntoys > 1 then
                        (let var = ddiv sum2 (real_of_int (ntoys - 1))
                         in vset s j (dsqrt (ddiv var (real_of_int ntoys))))
                      else vset s j (dsqrt sum2)))
              (snd bs))
       (\<lambda>csig. Inr (cbias, csig)))))"

definition bias_Asimov ::
  "env \<Rightarrow> int \<Rightarrow> nat \<Rightarrow> dvec \<times> dvec \<Rightarrow> engine \<Rightarrow> error + dvec \<times> dvec"
where
  "bias_Asimov ev ntoys n bs toyFactory =
     thenE (RunBiasAsimovToys ev ntoys toyFactory) (\<lambda>(vbias, tf1).
       for_loop n
         (\<lambda>i (b, s).
            let sz = length vbias in
            thenE (for_loop sz
                     (\<lambda>j (sum, sum2).
                        thenE (lget vbias j) (\<lambda>bj.
                        thenE (vget bj i) (\<lambda>x. Inr (sum + x, sum2 + x * x))))
                     (0, 0))
              (\<lambda>(sum, sum2).
            let mean = ddiv (Finite sum) (real sz) in
            thenE (vset b i mean) (\<lambda>b'.
            let var = ddiv (dabs (dsub (Finite sum2) (dmul (Finite sum) mean)))
                        (if sz = 0 then 2 ^ 64 - 1 else real sz - 1) in
            thenE (vset s i (dsqrt (ddiv var (real sz)))) (\<lambda>s'. Inr (b', s')))))
         bs)"

definition CalculateBias ::
  "(engine \<Rightarrow> error + engine) \<Rightarrow> env \<Rightarrow> BiasMethod \<Rightarrow> int \<Rightarrow> hist option \<Rightarrow> engine
     \<Rightarrow> error + engine"
where
  "CalculateBias getErrMat ev method ntoys hTrue e =
     (case res e of
        None \<Rightarrow> Inl NullPointer
      | Some r \<Rightarrow>
          (let hT = (case hTrue of None \<Rightarrow> Htruth r | Some h \<Rightarrow> h);
               truth = h2v hT;
               truthE = h2ve hT;
               asimov = asimovClone ev (Hmeasured r)
           in thenE (New ev r asimov) (\<lambda>tf.
                let toyFactory = tf\<lparr>verbose := 0\<rparr>;
                    bs = (dvec_ResizeTo (nt e) (bias (cache e)),
                          dvec_ResizeTo (nt e) (sigbias (cache e)))
                in thenE
                     (case method of
                        kBiasEstimator \<Rightarrow>
                          bias_Estimator getErrMat ev (nt e) truth truthE bs toyFactory
                      | kBiasClosure \<Rightarrow>
                          bias_Closure getErrMat ev ntoys (nt e) truth bs toyFactory
                      | kBiasAsimov \<Rightarrow> bias_Asimov ev ntoys (nt e) bs toyFactory)
                     (\<lambda>(b, s).
                        Inr (e\<lparr>cache := (cache e)\<lparr>bias := b, sigbias := s, haveBias := True\<rparr>\<rparr>)))))"

subsection \<open>An environment and an engine to run the model on\<close>

text \<open>
  \<open>env_of U c b\<close>: the algorithm \<open>U\<close>; an SVD solver that reports the condition \<open>c\<close>
  and the convergence flag \<open>b\<close> and inverts entry by entry (the pseudo-inverse of a
  diagonal matrix); a random source whose \<open>k\<close>-th draw adds \<open>k\<close> to every bin; a
  response whose toy is itself and whose folding is the identity. The header's
  defaults are taken as diagonal errors for \<^verbatim>\<open>EunfoldV\<close>, the covariance for \<^verbatim>\<open>Chi2\<close>
  and no weights.
\<close>

definition env_of :: "(engine \<Rightarrow> error + engine) \<Rightarrow> real \<Rightarrow> bool \<Rightarrow> env" where
  "env_of U c b =
     \<lparr> alg_Unfold = U,
       svd_Condition = (\<lambda>m. c),
       svd_Invert = (\<lambda>m. (b, map (map (\<lambda>x. if x = 0 then 0 else 1 / x)) m)),
       randomize = (\<lambda>k v. map (\<lambda>x. x + real k) v),
       res_RunToy = (\<lambda>k r. r),
       res_Vfolded = (\<lambda>r v. v),
       asimovClone = (\<lambda>h. h),
       dflt_EunfoldV = kErrors,
       dflt_Chi2 = kCovariance,
       dflt_getWeights = False,
       init_withError = kDefault \<rparr>"

text \<open>An algorithm whose \<^verbatim>\<open>Unfold()\<close> gives up at once, leaving the cache as it found it.\<close>

definition Unfold_gives_up :: "engine \<Rightarrow> error + engine" where
  "Unfold_gives_up e = Inr e"

text \<open>
  An algorithm whose \<^verbatim>\<open>Unfold()\<close> leaves the given result and the given covariance,
  as the algorithms that compute both in one pass do.
\<close>

definition Unfold_with_cov :: "vec \<Rightarrow> mat \<Rightarrow> engine \<Rightarrow> error + engine" where
  "Unfold_with_cov r c e =
     Inr (e\<lparr>cache := (cache e)\<lparr>rec := r, cov := c, haveCov := True, unfolded := True\<rparr>\<rparr>)"

text \<open>
  The engine constructed from a response with the given truth and measured
  vectors and a measured histogram with Poisson errors.
\<close>

definition engine_of :: "vec \<Rightarrow> vec \<Rightarrow> vec \<Rightarrow> engine" where
  "engine_of truth trained measured =
     projr (Setup (Some (response_of truth trained)) \<lparr>h2v = measured, h2ve = map sqrt measured\<rparr>
              (RooUnfoldT_new kDefault))"

subsection \<open>Auxiliary notions of the proofs\<close>

text \<open>
  The diagonal matrix that the no-error branch of \<^verbatim>\<open>Wunfold\<close> has built after its
  first \<open>k\<close> bins.
\<close>

definition diag_inverse :: "nat \<Rightarrow> vec \<Rightarrow> nat \<Rightarrow> mat" where
  "diag_inverse n r k =
     map (\<lambda>i. map (\<lambda>j. if j = i \<and> i < k \<and> r ! i \<noteq> 0 then 1 / r ! i else 0) [0..<n]) [0..<n]"



text \<open>
  What the error propagation of the base class (\<^verbatim>\<open>GetCov\<close>, \<^verbatim>\<open>GetErrors\<close>, \<^verbatim>\<open>GetWgt\<close>)
  leaves alone.
\<close>

definition result_kept :: "engine \<Rightarrow> engine \<Rightarrow> bool" where
  "result_kept e e1 \<longleftrightarrow>
     rec (cache e1) = rec (cache e) \<and> unfolded (cache e1) = unfolded (cache e)
     \<and> n_unfold e1 = n_unfold e \<and> nt e1 = nt e
     \<and> fail (cache e1) = fail (cache e)
     \<and> have_err_mat (cache e1) = have_err_mat (cache e)
     \<and> haveBias (cache e1) = haveBias (cache e)
     \<and> (haveCov (cache e) \<longrightarrow> haveCov (cache e1))
     \<and> (haveWgt (cache e) \<longrightarrow> haveWgt (cache e1))"

text \<open>
  The pull of toy \<open>i\<close> in bin \<open>j\<close> as the specification words it (\<open>U\<close> are the toys'
  results): recorded for "each bin with nonzero toy-unfolded value".
\<close>

definition closure_pull_by_value :: "vec list \<Rightarrow> vec \<Rightarrow> nat \<Rightarrow> nat \<Rightarrow> real" where
  "closure_pull_by_value U truth i j =
     (if U ! i ! j \<noteq> 0 then (U ! i ! j - truth ! j) / (U ! i ! j) else 0)"

section \<open>Loops and accessors\<close>

lemmas model_defs =
  thenE_def zero_vec_def zero_mat_def vec_ResizeTo_def mat_ResizeTo_def vget_def vset_def
  mget_def mset_def lget_def fdiv_def for_loop_def
  dadd_def dsub_def dmul_def ddiv_def dabs_def dsqrt_def zero_dvec_def zero_dmat_def
  dvec_ResizeTo_def
  Cache_init_def ClearCache_def GetSettings_def Init_def Reset_def SetResponse_def
  SetMeasured_def Setup_def ForceRecalculation_def RooUnfoldT_new_def response_of_def
  Vmeasured_def Emeasured_def GetMeasuredCov_def Unfold_def call_Unfold_def GetCov_def
  GetErrorsCovariance_def GetErrors_def InvertMatrix_def GetWgt_def UnfoldWithErrors_def
  Vunfold_def EunfoldV_def Wunfold_def subtract_def ABAT_def Chi2_def
  env_of_def Unfold_gives_up_def Unfold_with_cov_def engine_of_def Let_def

lemmas toy_defs =
  randomize_vMes_def response_RunToy_def RunToys_def RunToy_def GetErrMat_body_def
  RunBiasAsimovToys_def New_def bias_Estimator_def bias_Closure_def bias_Asimov_def
  CalculateBias_def

lemma loop_from_invariant:
  "loop_from lo k body s = Inr s' \<Longrightarrow> P lo s \<Longrightarrow>
   (\<And>i t t'. lo \<le> i \<Longrightarrow> i < lo + k \<Longrightarrow> P i t \<Longrightarrow> body i t = Inr t' \<Longrightarrow> P (Suc i) t') \<Longrightarrow>
   P (lo + k) s'"
proof (induction k arbitrary: lo s)
  case 0
  then show ?case by simp
next
  case (Suc k)
  from Suc.prems(1) obtain t where t: "body lo s = Inr t"
    and rest: "loop_from (Suc lo) k body t = Inr s'"
    by (auto split: sum.splits)
  have "P (Suc lo) t" using Suc.prems(2,3) t by simp
  then have "P (Suc lo + k) s'"
    using Suc.IH [OF rest] Suc.prems(3) by simp
  then show ?case by simp
qed

lemma for_loop_invariant:
  "for_loop n body s = Inr s' \<Longrightarrow> P 0 s \<Longrightarrow>
   (\<And>i t t'. i < n \<Longrightarrow> P i t \<Longrightarrow> body i t = Inr t' \<Longrightarrow> P (Suc i) t') \<Longrightarrow> P n s'"
  unfolding for_loop_def using loop_from_invariant [of 0 n body s s' P] by simp

lemma loop_from_Suc_end:
  "loop_from lo (Suc k) body s = thenE (loop_from lo k body s) (body (lo + k))"
proof (induction k arbitrary: lo s)
  case 0
  show ?case by (simp add: thenE_def split: sum.splits)
next
  case (Suc k)
  show ?case
  proof (cases "body lo s")
    case (Inl x)
    then show ?thesis by (simp add: thenE_def)
  next
    case (Inr t)
    have "loop_from lo (Suc (Suc k)) body s = loop_from (Suc lo) (Suc k) body t"
      using Inr by simp
    also have "\<dots> = thenE (loop_from (Suc lo) k body t) (body (Suc lo + k))"
      by (rule Suc.IH)
    also have "\<dots> = thenE (loop_from lo (Suc k) body s) (body (lo + Suc k))"
      using Inr by simp
    finally show ?thesis .
  qed
qed

lemma for_loop_Suc: "for_loop (Suc k) body s = thenE (for_loop k body s) (body k)"
  unfolding for_loop_def using loop_from_Suc_end [of 0 k body s] by simp

lemma thenE_Inl_eq: "thenE (Inl x) f = Inl x"
  by (simp add: thenE_def)

lemma thenE_Inr_eq: "thenE (Inr y) f = f y"
  by (simp add: thenE_def)

lemma thenE_Inr: "thenE m f = Inr y \<Longrightarrow> \<exists>x. m = Inr x \<and> f x = Inr y"
  by (cases m) (simp_all add: thenE_def)

lemma projr_Inr: "\<not> isl x \<Longrightarrow> x = Inr (fst (projr x), snd (projr x))"
  by (cases x) simp_all

lemma vset_Inr: "vset v i x = Inr v' \<Longrightarrow> i < length v \<and> v' = v[i := x]"
  by (simp add: vset_def split: if_splits)

lemma vget_Inr: "vget v i = Inr x \<Longrightarrow> i < length v \<and> x = v ! i"
  by (auto simp add: vget_def split: if_splits)

lemma lget_Inr: "lget xs i = Inr x \<Longrightarrow> i < length xs \<and> x = xs ! i"
  by (auto simp: lget_def split: if_splits)

section \<open>Cache resets\<close>

lemma Cache_init_flags:
  "\<not> unfolded Cache_init \<and> \<not> fail Cache_init \<and> \<not> haveCov Cache_init \<and> \<not> haveWgt Cache_init
   \<and> \<not> haveErrors Cache_init \<and> \<not> have_err_mat Cache_init \<and> \<not> haveBias Cache_init"
  by (simp add: Cache_init_def)

lemma Cache_init_contents:
  "rec Cache_init = [0] \<and> cov Cache_init = [[0]] \<and> wgt Cache_init = [[0]]
   \<and> variances Cache_init = [0] \<and> err_mat Cache_init = [[0]]
   \<and> bias Cache_init = [Finite 0] \<and> sigbias Cache_init = [Finite 0]"
  by (simp add: Cache_init_def zero_vec_def zero_mat_def zero_dvec_def)

text \<open>\<^verbatim>\<open>Setup\<close> throws on a null response and on nothing else.\<close>

lemma Setup_cache: "\<exists>e'. Setup (Some r) h e = Inr e' \<and> cache e' = Cache_init"
  by (simp add: Setup_def SetResponse_def SetMeasured_def thenE_def)

text \<open>
  C2, as amended. Every operation of the class that assigns a fresh cache leaves
  the same cache whatever the engine held before. \<^verbatim>\<open>Setup\<close> called again with a
  response returns and does so; so do rebinding the measured histogram with
  \<^verbatim>\<open>SetMeasured (const Hist*)\<close> or its covariance with \<^verbatim>\<open>SetMeasuredCov\<close>, a change of
  the systematics policy with \<^verbatim>\<open>IncludeSystematics\<close>, \<^verbatim>\<open>ClearCache\<close>, and
  \<^verbatim>\<open>ForceRecalculation\<close> on an engine that has a response. In that cache every
  validity flag (unfolded, fail, haveCov, haveWgt, haveErrors, have_err_mat,
  haveBias) is false and the result vector, covariance, weight matrix, toy error
  matrix and bias vectors are zero-filled placeholders of size one: nothing
  computed before is left. In particular after a second \<^verbatim>\<open>Setup\<close> no error matrix
  is marked available.
\<close>

theorem cache_reset_clears_everything:
  "(\<exists>e'. Setup (Some r) h e = Inr e' \<and> cache e' = Cache_init)
   \<and> cache (SetMeasured h e) = Cache_init
   \<and> cache (SetMeasuredCov c e) = Cache_init
   \<and> (d \<noteq> dosys e \<longrightarrow> cache (IncludeSystematics d e) = Cache_init)
   \<and> cache (ClearCache e) = Cache_init
   \<and> (res e \<noteq> None \<longrightarrow> (\<exists>e''. ForceRecalculation e = Inr e'' \<and> cache e'' = Cache_init))
   \<and> \<not> unfolded Cache_init \<and> \<not> fail Cache_init \<and> \<not> haveCov Cache_init \<and> \<not> haveWgt Cache_init
   \<and> \<not> haveErrors Cache_init \<and> \<not> have_err_mat Cache_init \<and> \<not> haveBias Cache_init
   \<and> rec Cache_init = [0] \<and> cov Cache_init = [[0]] \<and> wgt Cache_init = [[0]]
   \<and> variances Cache_init = [0] \<and> err_mat Cache_init = [[0]]
   \<and> bias Cache_init = [Finite 0] \<and> sigbias Cache_init = [Finite 0]"
  using Setup_cache [of r h e] Cache_init_flags Cache_init_contents
  by (auto simp: SetMeasured_def SetMeasuredCov_def IncludeSystematics_def ClearCache_def
      ForceRecalculation_def split: option.splits)

text \<open>
  An engine that has unfolded and computed its covariance, and the resets run on
  it.
\<close>

lemma filled_engine_example:
  "(let ev = env_of Unfold 1 True;
        e = snd (projr (UnfoldWithErrors G ev kCovariance False (engine_of [1, 4] [1, 4] [1, 4])))
    in unfolded (cache e) \<and> haveCov (cache e) \<and> rec (cache e) = [1, 4]
       \<and> cov (cache e) = [[1, 0], [0, 4]] \<and> res e \<noteq> None \<and> kAll \<noteq> dosys e)"
  by (simp add: model_defs)

theorem cache_reset_clears_everything_witness:
  "(let ev = env_of Unfold 1 True;
        G = GetErrMat 1 ev;
        e = snd (projr (UnfoldWithErrors G ev kCovariance False (engine_of [1, 4] [1, 4] [1, 4])));
        e' = projr (Setup (Some (response_of [1, 4] [1, 4])) \<lparr>h2v = [1, 4], h2ve = [1, 2]\<rparr> e);
        e'' = projr (ForceRecalculation e)
    in unfolded (cache e) \<and> haveCov (cache e) \<and> rec (cache e) = [1, 4]
       \<and> cov (cache e) = [[1, 0], [0, 4]]
       \<and> Setup (Some (response_of [1, 4] [1, 4])) \<lparr>h2v = [1, 4], h2ve = [1, 2]\<rparr> e = Inr e'
       \<and> cache e' = Cache_init
       \<and> cache (SetMeasured \<lparr>h2v = [1, 4], h2ve = [1, 2]\<rparr> e) = Cache_init
       \<and> cache (SetMeasuredCov [[1, 0], [0, 4]] e) = Cache_init
       \<and> cache (IncludeSystematics kAll e) = Cache_init
       \<and> cache (ClearCache e) = Cache_init
       \<and> ForceRecalculation e = Inr e'' \<and> cache e'' = Cache_init
       \<and> \<not> unfolded Cache_init \<and> \<not> haveCov Cache_init
       \<and> rec Cache_init = [0] \<and> cov Cache_init = [[0]])"
proof -
  let ?e = "snd (projr (UnfoldWithErrors (GetErrMat 1 (env_of Unfold 1 True))
                          (env_of Unfold 1 True) kCovariance False
                          (engine_of [1, 4] [1, 4] [1, 4])))"
  let ?S = "Setup (Some (response_of [1, 4] [1, 4])) \<lparr>h2v = [1, 4], h2ve = [1, 2]\<rparr> ?e"
  let ?F = "ForceRecalculation ?e"
  have ex: "unfolded (cache ?e)" "haveCov (cache ?e)" "rec (cache ?e) = [1, 4]"
    "cov (cache ?e) = [[1, 0], [0, 4]]" "res ?e \<noteq> None" "kAll \<noteq> dosys ?e"
    using filled_engine_example [of "GetErrMat 1 (env_of Unfold 1 True)"]
    by (simp_all add: Let_def)
  note t = cache_reset_clears_everything
    [where r = "response_of [1, 4] [1, 4]" and h = "\<lparr>h2v = [1, 4], h2ve = [1, 2]\<rparr>"
       and e = ?e and d = kAll and c = "[[1, 0], [0, 4]]"]
  note t1 = t [THEN conjunct2, THEN conjunct1]
  note t2 = t [THEN conjunct2, THEN conjunct2, THEN conjunct1]
  note t3 = t [THEN conjunct2, THEN conjunct2, THEN conjunct2]
  note t4 = t3 [THEN conjunct2, THEN conjunct1]
  note t5 = t3 [THEN conjunct2, THEN conjunct2]
  note t6 = t5 [THEN conjunct2]
  from t [THEN conjunct1] obtain e' where s: "?S = Inr e'" "cache e' = Cache_init"
    by (elim exE conjE)
  from t5 [THEN conjunct1, rule_format, OF ex(5)]
  obtain e'' where f: "?F = Inr e''" "cache e'' = Cache_init"
    by (elim exE conjE)
  have i: "cache (IncludeSystematics kAll ?e) = Cache_init"
    by (rule t3 [THEN conjunct1, rule_format, OF ex(6)])
  from t6 have c: "\<not> unfolded Cache_init" "\<not> haveCov Cache_init" "rec Cache_init = [0]"
    "cov Cache_init = [[0]]" by simp_all
  from s have s': "?S = Inr (projr ?S)" "cache (projr ?S) = Cache_init"
    by (simp_all only: sum.sel)
  from f have f': "?F = Inr (projr ?F)" "cache (projr ?F) = Cache_init"
    by (simp_all only: sum.sel)
  from ex(1-4) s' t1 t2 i t4 f' c show ?thesis
    unfolding Let_def by (intro conjI)
qed

text \<open>
  C2 as stated counts a change of the error treatment among the resets. It is
  not one: \<^verbatim>\<open>UnfoldWithErrors\<close> called with another treatment clears the flag of the
  errors and nothing else. After diagonal errors on two bins, the request for the
  covariance leaves the result \<open>[1, 4]\<close> and the unfolded flag in place and sets
  the covariance flag.
\<close>

theorem treatment_change_keeps_result_counterexample:
  "(let ev = env_of Unfold 1 True;
        G = GetErrMat 1 ev;
        e0 = engine_of [1, 4] [1, 4] [1, 4];
        e1 = snd (projr (UnfoldWithErrors G ev kErrors False e0));
        e2 = snd (projr (UnfoldWithErrors G ev kCovariance False e1))
    in UnfoldWithErrors G ev kErrors False e0 = Inr (True, e1)
       \<and> withError e1 = kErrors \<and> haveErrors (cache e1)
       \<and> UnfoldWithErrors G ev kCovariance False e1 = Inr (True, e2)
       \<and> withError e2 = kCovariance \<and> \<not> haveErrors (cache e2)
       \<and> unfolded (cache e2) \<and> haveCov (cache e2)
       \<and> rec (cache e2) = [1, 4] \<and> cov (cache e2) = [[1, 0], [0, 4]])"
  by (simp add: model_defs)

text \<open>
  The overload of \<^verbatim>\<open>SetMeasured\<close> that takes the measured vector and its errors
  assigns no cache either, unlike the overload that takes the histogram: it
  replaces the histogram and keeps every cached value, the measured vector among
  them, so that \<^verbatim>\<open>Vunfold\<close> goes on returning the result of the old input.
\<close>

lemma SetMeasured_vec_keeps_cache:
  "SetMeasured_vec createHist v err e = Inr e' \<Longrightarrow> cache e' = cache e"
  by (auto simp: SetMeasured_vec_def split: option.splits)

lemma SetMeasured_vec_stale_result:
  "(let ev = env_of Unfold 1 True;
        e1 = snd (projr (Vunfold ev (engine_of [1, 4] [1, 4] [1, 4])));
        h = \<lparr>h2v = [9, 25], h2ve = [3, 5]\<rparr>;
        e2 = projr (SetMeasured_vec (\<lambda>v. \<lparr>h2v = v, h2ve = map sqrt v\<rparr>) [9, 25] [3, 5] e1)
    in Vunfold ev (engine_of [1, 4] [1, 4] [1, 4]) = Inr ([1, 4], e1)
       \<and> SetMeasured_vec (\<lambda>v. \<lparr>h2v = v, h2ve = map sqrt v\<rparr>) [9, 25] [3, 5] e1 = Inr e2
       \<and> meas e2 = Some \<lparr>h2v = [9, 25], h2ve = [sqrt 9, sqrt 25]\<rparr>
       \<and> unfolded (cache e2)
       \<and> Vunfold ev e2 = Inr ([1, 4], e2)
       \<and> Vunfold ev (SetMeasured h e1)
           = Inr ([9, 25], snd (projr (Vunfold ev (SetMeasured h e1)))))"
  by (simp add: model_defs SetMeasured_vec_def)

section \<open>Matrix inversion\<close>

text \<open>
  C4. \<^verbatim>\<open>InvertMatrix\<close> takes the condition number from the SVD and, when the SVD's
  inversion converges, returns status 2 for a negative condition, 3 for a
  condition above 1e17 and 1 otherwise, in each case together with the inverse the
  solver produced; when the solver reports that it did not converge, the status
  is 0, whatever the condition.
\<close>

theorem InvertMatrix_status:
  "svd_Invert ev m = (okinv, minv) \<Longrightarrow>
   (okinv \<and> svd_Condition ev m < 0 \<longrightarrow> InvertMatrix ev m = (2, minv))
   \<and> (okinv \<and> 10 ^ 17 < svd_Condition ev m \<longrightarrow> InvertMatrix ev m = (3, minv))
   \<and> (okinv \<and> 0 \<le> svd_Condition ev m \<and> svd_Condition ev m \<le> 10 ^ 17
        \<longrightarrow> InvertMatrix ev m = (1, minv))
   \<and> (\<not> okinv \<longrightarrow> fst (InvertMatrix ev m) = 0)"
  by (auto simp: InvertMatrix_def Let_def)

theorem InvertMatrix_status_witness:
  "InvertMatrix (env_of Unfold (- 1) True) [[2, 0], [0, 4]] = (2, [[1 / 2, 0], [0, 1 / 4]])
   \<and> InvertMatrix (env_of Unfold (10 ^ 18) True) [[2, 0], [0, 4]] = (3, [[1 / 2, 0], [0, 1 / 4]])
   \<and> InvertMatrix (env_of Unfold 1 True) [[2, 0], [0, 4]] = (1, [[1 / 2, 0], [0, 1 / 4]])
   \<and> fst (InvertMatrix (env_of Unfold 1 False) [[2, 0], [0, 4]]) = 0"
  using InvertMatrix_status [of "env_of Unfold (- 1) True" "[[2, 0], [0, 4]]" True
      "[[1 / 2, 0], [0, 1 / 4]]"]
    InvertMatrix_status [of "env_of Unfold (10 ^ 18) True" "[[2, 0], [0, 4]]" True
      "[[1 / 2, 0], [0, 1 / 4]]"]
    InvertMatrix_status [of "env_of Unfold 1 True" "[[2, 0], [0, 4]]" True
      "[[1 / 2, 0], [0, 1 / 4]]"]
    InvertMatrix_status [of "env_of Unfold 1 False" "[[2, 0], [0, 4]]" False
      "[[1 / 2, 0], [0, 1 / 4]]"]
  by (simp add: env_of_def)

section \<open>The error vector\<close>






text \<open>
  On two bins \<^verbatim>\<open>GetErrMat\<close> stores outside the matrix that its toys have reset, and
  neither \<^verbatim>\<open>UnfoldWithErrors\<close> nor \<^verbatim>\<open>EunfoldV\<close> returns.
\<close>

lemma EunfoldV_kCovToy_two_bins:
  "(let ev = env_of Unfold 1 True;
        G = GetErrMat 1 ev;
        e0 = (engine_of [5, 7] [5, 7] [5, 7])\<lparr>NToys := 2\<rparr>
    in UnfoldWithErrors G ev kCovToy (dflt_getWeights ev) e0 = Inl OutOfRange
       \<and> EunfoldV G ev kCovToy e0 = Inl OutOfRange)"
  by (simp add: model_defs toy_defs eval_nat_numeral)


section \<open>The weight matrix without errors\<close>

lemma UnfoldWithErrors_kNoError:
  "UnfoldWithErrors G ev kNoError gw e = Inr (ok, e1) \<Longrightarrow>
     nt e1 = nt e \<and> ok = unfolded (cache e1)"
  by (auto simp: UnfoldWithErrors_def call_Unfold_def Let_def dest!: thenE_Inr split: if_splits)

text \<open>
  The loop of the no-error branch of \<^verbatim>\<open>Wunfold\<close> after \<open>k\<close> bins: it has built the
  diagonal of the inverses, or it has read the result vector outside its range.
  The division never fails.
\<close>

lemma Wunfold_loop:
  "k \<le> n \<Longrightarrow>
   for_loop k (\<lambda>i W. thenE (vget r i)
                        (\<lambda>x. if x \<noteq> 0 then thenE (fdiv 1 x) (\<lambda>q. mset W i i q) else Inr W))
     (zero_mat n n)
   = (if length r < k then Inl OutOfRange else Inr (diag_inverse n r k))"
proof (induction k)
  case 0
  show ?case by (simp add: for_loop_def zero_mat_def diag_inverse_def list_eq_iff_nth_eq)
next
  case (Suc k)
  then have IH: "for_loop k (\<lambda>i W. thenE (vget r i)
                        (\<lambda>x. if x \<noteq> 0 then thenE (fdiv 1 x) (\<lambda>q. mset W i i q) else Inr W))
     (zero_mat n n)
   = (if length r < k then Inl OutOfRange else Inr (diag_inverse n r k))" and k: "k < n"
    by simp_all
  have upd: "r ! k \<noteq> 0 \<Longrightarrow>
      mset (diag_inverse n r k) k k (1 / r ! k) = Inr (diag_inverse n r (Suc k))"
    using k by (auto simp: mset_def diag_inverse_def list_eq_iff_nth_eq nth_list_update less_Suc_eq)
  have same: "r ! k = 0 \<Longrightarrow> diag_inverse n r k = diag_inverse n r (Suc k)"
    by (auto simp: diag_inverse_def list_eq_iff_nth_eq less_Suc_eq)
  show ?case
    unfolding for_loop_Suc IH
    using upd same by (auto simp: thenE_def vget_def fdiv_def)
qed

text \<open>
  C10. Once \<^verbatim>\<open>UnfoldWithErrors\<close> has returned, \<^verbatim>\<open>Wunfold\<close> with the no-error
  treatment returns the \<open>nt \<times> nt\<close> matrix whose entry \<open>(i, i)\<close> is \<open>1 / rec i\<close> where
  the cached result \<open>rec i\<close> is not zero and whose other entries, the diagonal ones
  of zero bins among them, are zero (the zero matrix when the unfolding has
  failed). It divides by no zero bin content: the only way it does not return
  the matrix is a result vector with fewer than \<open>nt\<close> entries.
\<close>

theorem Wunfold_kNoError_diagonal:
  assumes "UnfoldWithErrors G ev kNoError True e = Inr (ok, e1)"
  shows "ok = unfolded (cache e1)
         \<and> Wunfold G ev kNoError e \<noteq> Inl NotFinite
         \<and> Wunfold G ev kNoError e =
             (if ok \<and> length (rec (cache e1)) < nt e then Inl OutOfRange
              else Inr (if ok
                        then map (\<lambda>i. map (\<lambda>j. if j = i \<and> rec (cache e1) ! i \<noteq> 0
                                              then 1 / rec (cache e1) ! i else 0) [0..<nt e])
                               [0..<nt e]
                        else zero_mat (nt e) (nt e), e1))"
proof -
  from UnfoldWithErrors_kNoError [OF assms]
  have n: "nt e1 = nt e" and ok: "ok = unfolded (cache e1)" by simp_all
  have W: "Wunfold G ev kNoError e =
             (if \<not> ok then Inr (zero_mat (nt e) (nt e), e1)
              else thenE (for_loop (nt e)
                     (\<lambda>i W. thenE (vget (rec (cache e1)) i)
                        (\<lambda>x. if x \<noteq> 0 then thenE (fdiv 1 x) (\<lambda>q. mset W i i q) else Inr W))
                     (zero_mat (nt e) (nt e)))
                   (\<lambda>W. Inr (W, e1)))"
    by (simp add: Wunfold_def assms thenE_def Let_def n)
  have eq: "Wunfold G ev kNoError e =
             (if ok \<and> length (rec (cache e1)) < nt e then Inl OutOfRange
              else Inr (if ok then diag_inverse (nt e) (rec (cache e1)) (nt e)
                        else zero_mat (nt e) (nt e), e1))"
    unfolding W by (simp add: Wunfold_loop thenE_Inl_eq thenE_Inr_eq)
  have d: "diag_inverse (nt e) (rec (cache e1)) (nt e)
           = map (\<lambda>i. map (\<lambda>j. if j = i \<and> rec (cache e1) ! i \<noteq> 0
                                  then 1 / rec (cache e1) ! i else 0) [0..<nt e]) [0..<nt e]"
    by (simp add: diag_inverse_def cong: map_cong)
  from eq d ok show ?thesis by auto
qed

lemma Wunfold_example:
  "UnfoldWithErrors G (env_of Unfold 1 True) kNoError True (engine_of [0, 4] [0, 4] [0, 4])
     = Inr (True, snd (projr (UnfoldWithErrors G (env_of Unfold 1 True) kNoError True
                               (engine_of [0, 4] [0, 4] [0, 4]))))
   \<and> rec (cache (snd (projr (UnfoldWithErrors G (env_of Unfold 1 True) kNoError True
                               (engine_of [0, 4] [0, 4] [0, 4]))))) = [0, 4]
   \<and> nt (engine_of [0, 4] [0, 4] [0, 4]) = 2"
  by (simp add: model_defs)

theorem Wunfold_kNoError_diagonal_witness:
  "(let ev = env_of Unfold 1 True;
        G = GetErrMat 1 ev;
        e0 = engine_of [0, 4] [0, 4] [0, 4];
        e1 = snd (projr (UnfoldWithErrors G ev kNoError True e0))
    in rec (cache e1) = [0, 4]
       \<and> Wunfold G ev kNoError e0 \<noteq> Inl NotFinite
       \<and> Wunfold G ev kNoError e0 = Inr ([[0, 0], [0, 1 / 4]], e1))"
proof -
  let ?G = "GetErrMat 1 (env_of Unfold 1 True)"
  let ?e0 = "engine_of [0, 4] [0, 4] [0, 4]"
  let ?e1 = "snd (projr (UnfoldWithErrors ?G (env_of Unfold 1 True) kNoError True ?e0))"
  have ex: "UnfoldWithErrors ?G (env_of Unfold 1 True) kNoError True ?e0 = Inr (True, ?e1)"
    "rec (cache ?e1) = [0, 4]" "nt ?e0 = 2"
    using Wunfold_example [of ?G] by simp_all
  from Wunfold_kNoError_diagonal [OF ex(1)] ex(2,3) show ?thesis
    by (simp add: Let_def eval_nat_numeral)
qed


section \<open>The sticky failure\<close>

text \<open>
  What holds of the failed state: once \<^verbatim>\<open>Unfold()\<close> has left the unfolded flag clear,
  \<^verbatim>\<open>UnfoldWithErrors\<close> sets the fail flag and returns false; from then on, in the same
  cache generation, \<^verbatim>\<open>UnfoldWithErrors\<close> returns false and \<^verbatim>\<open>Vunfold\<close> returns the
  cached vector without another call of \<^verbatim>\<open>Unfold()\<close>. \<^verbatim>\<open>Vunfold\<close> resizes that vector
  to the truth length only if it has no rows at all.
\<close>

lemma failed_UnfoldWithErrors:
  "\<not> unfolded (cache e) \<Longrightarrow> fail (cache e) \<Longrightarrow> UnfoldWithErrors G ev t gw e = Inr (False, e)"
  by (simp add: UnfoldWithErrors_def thenE_def)

lemma failed_Vunfold:
  assumes "\<not> unfolded (cache e)" and "fail (cache e)"
  shows "\<exists>e'. Vunfold ev e = Inr (rec (cache e'), e') \<and> n_unfold e' = n_unfold e
           \<and> \<not> unfolded (cache e') \<and> fail (cache e')
           \<and> rec (cache e') = (if 0 < nt e \<and> rec (cache e) = [] then zero_vec (nt e)
                                else rec (cache e))"
  using assms by (simp add: Vunfold_def thenE_def Let_def vec_ResizeTo_def zero_vec_def)

lemma first_failure_sets_flag:
  assumes "\<not> unfolded (cache e)" and "\<not> fail (cache e)"
    and "call_Unfold ev e = Inr e1" and "\<not> unfolded (cache e1)"
  shows "UnfoldWithErrors G ev t gw e = Inr (False, e1\<lparr>cache := (cache e1)\<lparr>fail := True\<rparr>\<rparr>)"
  using assms by (simp add: UnfoldWithErrors_def thenE_def)

text \<open>
  C1, at an engine with three truth bins whose algorithm fails and leaves the
  cache as the reset made it. The failure is sticky, as the claim says: the fail
  flag is set, \<^verbatim>\<open>Unfold()\<close> has run once and is not run again, \<^verbatim>\<open>UnfoldWithErrors\<close>
  returns false. But \<^verbatim>\<open>Vunfold\<close> returns the one-element vector of the fresh cache,
  not a vector of the truth length 3: the vector that \<^verbatim>\<open>Cache()\<close> constructs has one
  row, so the test \<^verbatim>\<open>_cache._rec.GetNrows() == 0\<close> that guards the resize to
  \<^verbatim>\<open>_nt\<close> is false.
\<close>

theorem Vunfold_after_failure_has_one_bin:
  "(let ev = env_of Unfold_gives_up 1 True;
        e0 = engine_of [1, 2, 3] [1, 2, 3] [1, 2, 3];
        e1 = snd (projr (Vunfold ev e0))
    in nt e0 = 3
       \<and> Vunfold ev e0 = Inr ([0], e1)
       \<and> fail (cache e1) \<and> \<not> unfolded (cache e1) \<and> n_unfold e1 = 1
       \<and> UnfoldWithErrors (GetErrMat 1 ev) ev kErrors False e1 = Inr (False, e1)
       \<and> Vunfold ev e1 = Inr ([0], e1))"
  by (simp add: model_defs)


section \<open>Error treatments and the cached result\<close>

text \<open>
  For every treatment but the toy covariance, \<^verbatim>\<open>UnfoldWithErrors\<close> on an unfolded
  engine leaves the result vector and the unfolded flag as they are, does not
  call \<^verbatim>\<open>Unfold()\<close>, and clears no validity flag other than \<^verbatim>\<open>_haveErrors\<close>.
\<close>

lemma Emeasured_kept: "Emeasured e = Inr (v, e1) \<Longrightarrow> result_kept e e1"
  by (auto simp: Emeasured_def result_kept_def dest!: thenE_Inr split: option.splits)

lemma GetMeasuredCov_kept: "GetMeasuredCov e = Inr (m, e1) \<Longrightarrow> result_kept e e1"
  by (auto simp: GetMeasuredCov_def result_kept_def dest!: thenE_Inr Emeasured_kept
      split: option.splits)

lemma GetCov_kept: "GetCov e = Inr e1 \<Longrightarrow> result_kept e e1 \<and> haveCov (cache e1)"
  by (auto simp: GetCov_def Let_def result_kept_def dest!: thenE_Inr GetMeasuredCov_kept)

lemma GetErrors_kept: "GetErrors e = Inr e1 \<Longrightarrow> result_kept e e1"
  by (auto simp: GetErrors_def GetErrorsCovariance_def result_kept_def
      dest!: thenE_Inr GetCov_kept split: if_splits)

lemma GetWgt_kept: "GetWgt ev e = Inr e1 \<Longrightarrow> result_kept e e1"
  by (auto simp: GetWgt_def Let_def result_kept_def
      dest!: thenE_Inr GetCov_kept split: if_splits prod.splits)

lemma UnfoldWithErrors_keeps_result:
  assumes "UnfoldWithErrors G ev t gw e = Inr (ok, e')" and "unfolded (cache e)" and "t \<noteq> kCovToy"
  shows "rec (cache e') = rec (cache e) \<and> unfolded (cache e') \<and> n_unfold e' = n_unfold e
         \<and> (haveCov (cache e) \<longrightarrow> haveCov (cache e'))
         \<and> (haveWgt (cache e) \<longrightarrow> haveWgt (cache e'))
         \<and> have_err_mat (cache e') = have_err_mat (cache e)
         \<and> haveBias (cache e') = haveBias (cache e)"
  using assms unfolding UnfoldWithErrors_def Let_def
  by (cases t)
    (auto simp: thenE_def result_kept_def dest!: GetErrors_kept GetCov_kept GetWgt_kept
      split: if_splits sum.splits)

text \<open>
  The toy covariance is computed by toys that run on the engine itself, and every
  \<^verbatim>\<open>RunToys\<close> ends with \<^verbatim>\<open>ForceRecalculation\<close>: what the engine had cached is gone.
\<close>

lemma RunToys_resets_cache:
  "RunToys G ev n e = Inr (r, e') \<Longrightarrow> cache e' = Cache_init \<and> withError e' = withError e"
  by (auto simp: RunToys_def Let_def ForceRecalculation_def dest!: thenE_Inr split: option.splits)

lemma RunToy_resets_cache:
  "RunToy G ev e = Inr (r, e') \<Longrightarrow> cache e' = Cache_init \<and> withError e' = withError e"
  by (auto simp: RunToy_def dest!: thenE_Inr RunToys_resets_cache)

lemma GetErrMat_few_toys: "NToys e \<le> 1 \<Longrightarrow> GetErrMat (Suc n) ev e = Inr e"
  by (simp add: GetErrMat_body_def)

text \<open>
  So the cache that \<^verbatim>\<open>GetErrMat\<close> leaves after more than one toy is the freshly
  constructed one but for the error matrix and its flag, and \<^verbatim>\<open>UnfoldWithErrors\<close>
  with the toy covariance, whenever it returns, has dropped the result.
\<close>

lemma GetErrMat_body_cache:
  assumes "GetErrMat_body G ev e = Inr e'" and "1 < NToys e"
  shows "cache e' = Cache_init\<lparr>err_mat := err_mat (cache e'), have_err_mat := True\<rparr>"
proof -
  define e0 where
    "e0 = e\<lparr>cache := (cache e)\<lparr>err_mat := mat_ResizeTo (nt e) (nt e) (err_mat (cache e))\<rparr>\<rparr>"
  define body where "body = (\<lambda>(k::nat) (xisum :: vec, xijsum :: mat, e1).
                    thenE (RunToy G ev e1) (\<lambda>((c, x, xe), e2).
                    thenE (for_loop (nt e2)
                             (\<lambda>i (xisum1, xijsum1).
                                thenE (vget x i) (\<lambda>xi.
                                thenE (vget xisum1 i) (\<lambda>si.
                                thenE (vset xisum1 i (si + xi)) (\<lambda>xisum2.
                                thenE (for_loop (nt e2)
                                         (\<lambda>j m. thenE (vget x j) (\<lambda>xj.
                                                 thenE (mget m i j) (\<lambda>sij.
                                                 mset m i j (sij + xi * xj))))
                                         xijsum1)
                                  (\<lambda>xijsum2. Inr (xisum2, xijsum2))))))
                             (xisum, xijsum))
                      (\<lambda>(xisum3, xijsum3). Inr (xisum3, xijsum3, e2))))"
  from assms obtain xisum xijsum e1 m where
    loop: "for_loop (nat (NToys e0)) body (zero_vec (nt e0), zero_mat (nt e0) (nt e0), e0)
             = Inr (xisum, xijsum, e1)"
    and e': "e' = e1\<lparr>cache := (cache e1)\<lparr>err_mat := m, have_err_mat := True\<rparr>\<rparr>"
    unfolding GetErrMat_body_def Let_def e0_def [symmetric] body_def [symmetric]
    by (auto dest!: thenE_Inr)
  have n: "0 < nat (NToys e0)" using assms(2) by (simp add: e0_def)
  define P where
    "P = (\<lambda>(k::nat) (s :: vec \<times> mat \<times> engine). 0 < k \<longrightarrow> cache (snd (snd s)) = Cache_init)"
  have "P (nat (NToys e0)) (xisum, xijsum, e1)"
  proof (rule for_loop_invariant [OF loop])
    show "P 0 (zero_vec (nt e0), zero_mat (nt e0) (nt e0), e0)" by (simp add: P_def)
  next
    fix i t t'
    assume "body i t = Inr t'"
    then show "P (Suc i) t'"
      by (cases t) (auto simp: P_def body_def dest!: thenE_Inr RunToy_resets_cache)
  qed
  with n have c1: "cache e1 = Cache_init" by (simp add: P_def)
  with e' show ?thesis by simp
qed

lemma UnfoldWithErrors_kCovToy_resets:
  assumes "UnfoldWithErrors (GetErrMat (Suc n) ev) ev kCovToy gw e = Inr (ok, e')"
    and "unfolded (cache e)" and "\<not> have_err_mat (cache e)" and "1 < NToys e"
  shows "ok \<and> \<not> unfolded (cache e') \<and> rec (cache e') = [0]"
proof -
  define e2 where "e2 = (if withError e \<noteq> kCovToy
                       then e\<lparr>cache := (cache e)\<lparr>haveErrors := False\<rparr>\<rparr> else e)\<lparr>withError := kCovToy\<rparr>"
  have n2: "1 < NToys e2" "\<not> have_err_mat (cache e2)" using assms(3,4) by (simp_all add: e2_def)
  have eq: "UnfoldWithErrors (GetErrMat (Suc n) ev) ev kCovToy gw e =
      thenE (thenE (GetErrMat_body (GetErrMat n ev) ev e2) (\<lambda>e3. Inr (have_err_mat (cache e3), e3)))
        (\<lambda>(ok, e3). Inr (ok, if \<not> ok then e3\<lparr>cache := (cache e3)\<lparr>fail := True\<rparr>\<rparr> else e3))"
    using assms(2,3) by (simp add: UnfoldWithErrors_def Let_def e2_def thenE_def)
  from assms(1) [unfolded eq] obtain e3 where g: "GetErrMat_body (GetErrMat n ev) ev e2 = Inr e3"
    and r: "ok = have_err_mat (cache e3)"
           "e' = (if \<not> ok then e3\<lparr>cache := (cache e3)\<lparr>fail := True\<rparr>\<rparr> else e3)"
    by (auto dest!: thenE_Inr)
  from GetErrMat_body_cache [OF g n2(1)]
  have c: "cache e3 = Cache_init\<lparr>err_mat := err_mat (cache e3), have_err_mat := True\<rparr>" .
  have "have_err_mat (cache e3)" "\<not> unfolded (cache e3)" "rec (cache e3) = [0]"
    by (subst c, simp add: Cache_init_def zero_vec_def)+
  with r show ?thesis by simp
qed

text \<open>
  C3, at an engine with one bin and two toys that has been unfolded with diagonal
  errors (result \<open>[5]\<close>, one call of \<^verbatim>\<open>Unfold()\<close>): \<^verbatim>\<open>UnfoldWithErrors\<close> with the toy
  covariance, a treatment that differs from the previous one, returns true and
  leaves the unfolded flag clear and the result vector reset to \<open>[0]\<close>, after two
  more calls of \<^verbatim>\<open>Unfold()\<close>.
\<close>

theorem UnfoldWithErrors_kCovToy_drops_result:
  "(let ev = env_of Unfold 1 True;
        G = GetErrMat 1 ev;
        e0 = (engine_of [5] [5] [5])\<lparr>NToys := 2\<rparr>;
        e1 = snd (projr (UnfoldWithErrors G ev kErrors False e0));
        e2 = snd (projr (UnfoldWithErrors G ev kCovToy False e1))
    in unfolded (cache e1) \<and> withError e1 = kErrors \<and> rec (cache e1) = [5] \<and> n_unfold e1 = 1
       \<and> UnfoldWithErrors G ev kCovToy False e1 = Inr (True, e2)
       \<and> \<not> unfolded (cache e2) \<and> rec (cache e2) = [0] \<and> n_unfold e2 = 3)"
  by (simp add: model_defs toy_defs eval_nat_numeral)

section \<open>The covariance from toys\<close>

lemma mset_shape: "mset m i j x = Inr m' \<Longrightarrow> map length m' = map length m"
  by (auto simp: mset_def list_eq_iff_nth_eq nth_list_update split: if_splits)

lemma fill_loops_shape:
  assumes "for_loop n (\<lambda>i m. for_loop n' (\<lambda>j m'. body i j m') m) m0 = Inr m1"
    and "\<And>i j u u'. body i j u = Inr u' \<Longrightarrow> map length u' = map length u"
  shows "map length m1 = map length m0"
proof (rule for_loop_invariant [OF assms(1), where P = "\<lambda>i m. map length m = map length m0"])
  show "map length m0 = map length m0" ..
next
  fix i t t'
  assume inv: "map length t = map length m0"
    and step: "for_loop n' (\<lambda>j m'. body i j m') t = Inr t'"
  show "map length t' = map length m0"
  proof (rule for_loop_invariant [OF step, where P = "\<lambda>j m. map length m = map length m0"])
    show "map length t = map length m0" by (rule inv)
  next
    fix j u u'
    assume "map length u = map length m0" and "body i j u = Inr u'"
    then show "map length u' = map length m0"
      using assms(2) by simp
  qed
qed

lemma GetErrMat_body_one_entry:
  assumes "GetErrMat_body G ev e = Inr e'" and "1 < NToys e"
  shows "map length (err_mat (cache e')) = [1]"
proof -
  define e0 where
    "e0 = e\<lparr>cache := (cache e)\<lparr>err_mat := mat_ResizeTo (nt e) (nt e) (err_mat (cache e))\<rparr>\<rparr>"
  define body where "body = (\<lambda>(k::nat) (xisum :: vec, xijsum :: mat, e1).
                    thenE (RunToy G ev e1) (\<lambda>((c, x, xe), e2).
                    thenE (for_loop (nt e2)
                             (\<lambda>i (xisum1, xijsum1).
                                thenE (vget x i) (\<lambda>xi.
                                thenE (vget xisum1 i) (\<lambda>si.
                                thenE (vset xisum1 i (si + xi)) (\<lambda>xisum2.
                                thenE (for_loop (nt e2)
                                         (\<lambda>j m. thenE (vget x j) (\<lambda>xj.
                                                 thenE (mget m i j) (\<lambda>sij.
                                                 mset m i j (sij + xi * xj))))
                                         xijsum1)
                                  (\<lambda>xijsum2. Inr (xisum2, xijsum2))))))
                             (xisum, xijsum))
                      (\<lambda>(xisum3, xijsum3). Inr (xisum3, xijsum3, e2))))"
  from assms obtain xisum xijsum e1 m where
    loop: "for_loop (nat (NToys e0)) body (zero_vec (nt e0), zero_mat (nt e0) (nt e0), e0)
             = Inr (xisum, xijsum, e1)"
    and fill: "for_loop (nt e1)
                 (\<lambda>i m. for_loop (nt e1)
                           (\<lambda>j m'.
                              thenE (mget xijsum i j) (\<lambda>sij.
                              thenE (vget xisum i) (\<lambda>si.
                              thenE (vget xisum j) (\<lambda>sj.
                                mset m' i j
                                  ((sij - (si * sj) / real_of_int (NToys e1))
                                   / real_of_int (NToys e1 - 1))))))
                           m)
                 (err_mat (cache e1)) = Inr m"
    and e': "e' = e1\<lparr>cache := (cache e1)\<lparr>err_mat := m, have_err_mat := True\<rparr>\<rparr>"
    unfolding GetErrMat_body_def Let_def e0_def [symmetric] body_def [symmetric]
    by (auto dest!: thenE_Inr)
  have n: "0 < nat (NToys e0)" using assms(2) by (simp add: e0_def)
  define P where
    "P = (\<lambda>(k::nat) (s :: vec \<times> mat \<times> engine). 0 < k \<longrightarrow> cache (snd (snd s)) = Cache_init)"
  have "P (nat (NToys e0)) (xisum, xijsum, e1)"
  proof (rule for_loop_invariant [OF loop])
    show "P 0 (zero_vec (nt e0), zero_mat (nt e0) (nt e0), e0)" by (simp add: P_def)
  next
    fix i t t'
    assume "body i t = Inr t'"
    then show "P (Suc i) t'"
      by (cases t) (auto simp: P_def body_def dest!: thenE_Inr RunToy_resets_cache)
  qed
  with n have c1: "cache e1 = Cache_init" by (simp add: P_def)
  have "map length m = map length (err_mat (cache e1))"
    by (rule fill_loops_shape [OF fill]) (auto dest!: thenE_Inr mset_shape)
  with c1 e' show ?thesis
    by (simp add: Cache_init_def zero_mat_def)
qed

text \<open>
  C5, at an engine with two bins and two toys. \<^verbatim>\<open>GetErrMat\<close> resizes the error matrix
  to \<open>2 \<times> 2\<close> and then runs its toys, each of which resets the cache and with it the
  matrix to \<open>1 \<times> 1\<close> (\<open>GetErrMat_body_one_entry\<close>); the store into the entry
  \<open>(0, 1)\<close> after the toys is outside the matrix. (With at most one toy \<^verbatim>\<open>GetErrMat\<close>
  returns at once, \<open>GetErrMat_few_toys\<close>, as the claim says.)
\<close>

theorem GetErrMat_two_bins_out_of_range:
  "GetErrMat 1 (env_of Unfold 1 True) ((engine_of [5, 7] [5, 7] [5, 7])\<lparr>NToys := 2\<rparr>)
     = Inl OutOfRange"
  by (simp add: model_defs toy_defs eval_nat_numeral)

section \<open>Bias from Asimov toys\<close>

text \<open>
  What the Asimov branch of \<^verbatim>\<open>CalculateBias\<close> does with the deviations \<open>V\<close> that
  \<^verbatim>\<open>RunBiasAsimovToys\<close> hands it: there are \<open>ntoys\<^sup>2\<close> of them, the bias of a bin is
  their mean, its error \<open>sqrt (\<bar>sum2 - sum * mean\<bar> / (n - 1) / n)\<close>, and the reference
  histogram plays no part. (Without toys the mean is \<open>0 / 0\<close>, with a single
  deviation the error is.)
\<close>

lemma fill_vec2:
  assumes "for_loop n body (v0, w0) = Inr (v, w)" and "length v0 = n" and "length w0 = n"
    and "\<And>i u x u' x'. i < n \<Longrightarrow> body i (u, x) = Inr (u', x')
           \<Longrightarrow> u' = u[i := f i] \<and> x' = x[i := g i]"
  shows "v = map f [0..<n] \<and> w = map g [0..<n]"
proof -
  define P where "P = (\<lambda>(k::nat) s.
      length (fst s) = n \<and> length (snd s) = n
      \<and> (\<forall>i<k. fst s ! i = f i \<and> snd s ! i = g i))"
  have "P n (v, w)"
  proof (rule for_loop_invariant [OF assms(1)])
    show "P 0 (v0, w0)" using assms(2,3) by (simp add: P_def)
  next
    fix i t t'
    assume i: "i < n" and inv: "P i t" and b: "body i t = Inr t'"
    obtain u x where t: "t = (u, x)" by (cases t)
    obtain u' x' where t': "t' = (u', x')" by (cases t')
    from assms(4) [OF i b [unfolded t t']] have "u' = u[i := f i]" "x' = x[i := g i]" by simp_all
    with inv i t t' show "P (Suc i) t'"
      by (auto simp: P_def nth_list_update less_Suc_eq)
  qed
  then show ?thesis by (auto simp: P_def list_eq_iff_nth_eq)
qed

lemma asimov_sum_loop:
  fixes V :: "vec list"
  assumes "for_loop sz
             (\<lambda>j (sum, sum2).
                thenE (lget V j) (\<lambda>bj.
                thenE (vget bj i) (\<lambda>x. Inr (sum + x, sum2 + x * x))))
             (0, 0) = Inr (s, s2)"
  shows "s = (\<Sum>j\<leftarrow>[0..<sz]. V ! j ! i) \<and> s2 = (\<Sum>j\<leftarrow>[0..<sz]. (V ! j ! i)\<^sup>2)"
proof -
  define P where "P = (\<lambda>(k::nat) (p :: real \<times> real).
      fst p = (\<Sum>j\<leftarrow>[0..<k]. V ! j ! i) \<and> snd p = (\<Sum>j\<leftarrow>[0..<k]. (V ! j ! i)\<^sup>2))"
  have "P sz (s, s2)"
  proof (rule for_loop_invariant [OF assms])
    show "P 0 (0, 0)" by (simp add: P_def)
  next
    fix k t t'
    assume "P k t"
      and "(case t of (a, c) \<Rightarrow>
                thenE (lget V k) (\<lambda>bj.
                thenE (vget bj i) (\<lambda>x. Inr (a + x, c + x * x)))) = Inr t'"
    then show "P (Suc k) t'"
      by (cases t) (auto simp: P_def power2_eq_square dest!: thenE_Inr lget_Inr vget_Inr)
  qed
  then show ?thesis by (simp add: P_def)
qed


lemma bias_Asimov_formula:
  assumes run: "bias_Asimov ev ntoys n bs tf = Inr (b, s)"
    and len: "length (fst bs) = n" "length (snd bs) = n"
  shows "\<exists>V tf'.
           RunBiasAsimovToys ev ntoys tf = Inr (V, tf')
           \<and> b = map (\<lambda>i. ddiv (Finite (\<Sum>j\<leftarrow>[0..<length V]. V ! j ! i)) (real (length V)))
                   [0..<n]
           \<and> s = map (\<lambda>i. dsqrt (ddiv (ddiv
                          (dabs (dsub (Finite (\<Sum>j\<leftarrow>[0..<length V]. (V ! j ! i)\<^sup>2))
                                   (dmul (Finite (\<Sum>j\<leftarrow>[0..<length V]. V ! j ! i))
                                      (ddiv (Finite (\<Sum>j\<leftarrow>[0..<length V]. V ! j ! i))
                                         (real (length V))))))
                          (if length V = 0 then 2 ^ 64 - 1 else real (length V) - 1))
                          (real (length V))))
                   [0..<n]"
proof -
  obtain b0 s0 where bs: "bs = (b0, s0)" by (cases bs)
  define body where "body = (\<lambda>V i (b :: dvec, s :: dvec).
            let sz = length V in
            thenE (for_loop sz
                     (\<lambda>j (sum, sum2).
                        thenE (lget V j) (\<lambda>bj.
                        thenE (vget bj i) (\<lambda>x. Inr (sum + x, sum2 + x * x))))
                     (0 :: real, 0 :: real))
              (\<lambda>(sum, sum2).
            let mean = ddiv (Finite sum) (real sz) in
            thenE (vset b i mean) (\<lambda>b'.
            let var = ddiv (dabs (dsub (Finite sum2) (dmul (Finite sum) mean)))
                        (if sz = 0 then 2 ^ 64 - 1 else real sz - 1) in
            thenE (vset s i (dsqrt (ddiv var (real sz)))) (\<lambda>s'. Inr (b', s')))))"
  from run obtain V tf' where toys: "RunBiasAsimovToys ev ntoys tf = Inr (V, tf')"
    and loop: "for_loop n (body V) (b0, s0) = Inr (b, s)"
    unfolding bias_Asimov_def bs body_def by (auto dest!: thenE_Inr)
  have "b = map (\<lambda>i. ddiv (Finite (\<Sum>j\<leftarrow>[0..<length V]. V ! j ! i)) (real (length V)))
                   [0..<n]
        \<and> s = map (\<lambda>i. dsqrt (ddiv (ddiv
                          (dabs (dsub (Finite (\<Sum>j\<leftarrow>[0..<length V]. (V ! j ! i)\<^sup>2))
                                   (dmul (Finite (\<Sum>j\<leftarrow>[0..<length V]. V ! j ! i))
                                      (ddiv (Finite (\<Sum>j\<leftarrow>[0..<length V]. V ! j ! i))
                                         (real (length V))))))
                          (if length V = 0 then 2 ^ 64 - 1 else real (length V) - 1))
                          (real (length V))))
                   [0..<n]"
  proof (rule fill_vec2 [OF loop])
    show "length b0 = n" "length s0 = n" using len bs by simp_all
  next
    fix i u x u' x'
    assume "body V i (u, x) = Inr (u', x')"
    then obtain sm sm2 where
      sums: "for_loop (length V)
                     (\<lambda>j (sum, sum2).
                        thenE (lget V j) (\<lambda>bj.
                        thenE (vget bj i) (\<lambda>x. Inr (sum + x, sum2 + x * x))))
                     (0, 0) = Inr (sm, sm2)"
      and u': "vset u i (ddiv (Finite sm) (real (length V))) = Inr u'"
      and x': "vset x i (dsqrt (ddiv (ddiv
                   (dabs (dsub (Finite sm2) (dmul (Finite sm) (ddiv (Finite sm) (real (length V))))))
                   (if length V = 0 then 2 ^ 64 - 1 else real (length V) - 1))
                   (real (length V)))) = Inr x'"
      by (auto simp: body_def Let_def dest!: thenE_Inr)
    from asimov_sum_loop [OF sums] vset_Inr [OF u'] vset_Inr [OF x']
    show "u' = u[i := ddiv (Finite (\<Sum>j\<leftarrow>[0..<length V]. V ! j ! i)) (real (length V))]
          \<and> x' = x[i := dsqrt (ddiv (ddiv
                          (dabs (dsub (Finite (\<Sum>j\<leftarrow>[0..<length V]. (V ! j ! i)\<^sup>2))
                                   (dmul (Finite (\<Sum>j\<leftarrow>[0..<length V]. V ! j ! i))
                                      (ddiv (Finite (\<Sum>j\<leftarrow>[0..<length V]. V ! j ! i))
                                         (real (length V))))))
                          (if length V = 0 then 2 ^ 64 - 1 else real (length V) - 1))
                          (real (length V)))]"
      by simp
  qed
  with toys show ?thesis by blast
qed


text \<open>With more than one deviation all of this is finite.\<close>

lemma asimov_finite:
  assumes "1 < m"
  shows "ddiv (Finite a) (real m) = Finite (a / real m)"
    and "dsqrt (ddiv (ddiv (dabs (dsub (Finite c) (dmul (Finite a) (ddiv (Finite a) (real m)))))
                        (if m = 0 then 2 ^ 64 - 1 else real m - 1))
                  (real m))
         = Finite (sqrt (\<bar>c - a * (a / real m)\<bar> / (real m - 1) / real m))"
proof -
  from assms have "0 \<le> \<bar>c - a * (a / real m)\<bar> / (real m - 1) / real m"
    by (intro divide_nonneg_nonneg) simp_all
  with assms show "dsqrt (ddiv (ddiv (dabs (dsub (Finite c) (dmul (Finite a) (ddiv (Finite a) (real m)))))
                        (if m = 0 then 2 ^ 64 - 1 else real m - 1))
                  (real m))
         = Finite (sqrt (\<bar>c - a * (a / real m)\<bar> / (real m - 1) / real m))"
    by (simp add: dsqrt_def ddiv_def dabs_def dsub_def dmul_def not_less)
  from assms show "ddiv (Finite a) (real m) = Finite (a / real m)"
    by (simp add: ddiv_def)
qed

lemma RunBiasAsimovToys_count:
  assumes "RunBiasAsimovToys ev ntoys e = Inr (V, e')"
  shows "length V = nat ntoys * nat ntoys"
proof -
  define inner where "inner = (\<lambda>(r :: response) (j::nat) (vbias1 :: vec list, e6).
                       let e7 = e6\<lparr>cache := (cache e6)\<lparr>vMes := Some (res_Vfolded ev r (h2v (Htruth r)))\<rparr>\<rparr>
                       in thenE (randomize_vMes ev e7) (\<lambda>e8.
                          thenE (Vunfold ev e8) (\<lambda>(u, e9).
                          thenE (subtract (h2v (Htruth r)) u) (\<lambda>d. Inr (vbias1 @ [d], e9)))))"
  have inner_count: "\<And>r v0 e0 v1 e1. for_loop (nat ntoys) (inner r) (v0, e0) = Inr (v1, e1)
      \<Longrightarrow> length v1 = length v0 + nat ntoys"
  proof -
    fix r v0 e0 v1 e1
    assume l: "for_loop (nat ntoys) (inner r) (v0, e0) = Inr (v1, e1)"
    have "length (fst (v1, e1)) = length v0 + nat ntoys"
    proof (rule for_loop_invariant [OF l, where P = "\<lambda>k s. length (fst s) = length v0 + k"])
      show "length (fst (v0, e0)) = length v0 + 0" by simp
    next
      fix i t t'
      assume "length (fst t) = length v0 + i" and "inner r i t = Inr t'"
      then show "length (fst t') = length v0 + Suc i"
        by (cases t) (auto simp: inner_def Let_def dest!: thenE_Inr)
    qed
    then show "length v1 = length v0 + nat ntoys" by simp
  qed
  from assms obtain e1 where
    outer: "for_loop (nat ntoys)
          (\<lambda>i (vbias, e1).
             thenE (ForceRecalculation e1) (\<lambda>e2.
             thenE (Vmeasured e2) (\<lambda>(vmes, e3).
             thenE (if dosys e3 \<noteq> kNoMeasured then randomize_vMes ev e3 else Inr e3) (\<lambda>e4.
             thenE (if dosys e4 = kAll then response_RunToy ev e4 else Inr e4) (\<lambda>e5.
             case res e5 of
               None \<Rightarrow> Inl NullPointer
             | Some r \<Rightarrow> for_loop (nat ntoys) (inner r) (vbias, e5))))))
          ([], e) = Inr (V, e1)"
    unfolding RunBiasAsimovToys_def inner_def Let_def by (auto dest!: thenE_Inr)
  have "length (fst (V, e1)) = nat ntoys * nat ntoys"
  proof (rule for_loop_invariant [OF outer, where P = "\<lambda>k s. length (fst s) = k * nat ntoys"])
    show "length (fst ([], e)) = 0 * nat ntoys" by simp
  next
    fix i t t'
    assume "length (fst t) = i * nat ntoys"
      and "(case t of (vbias, e1) \<Rightarrow>
             thenE (ForceRecalculation e1) (\<lambda>e2.
             thenE (Vmeasured e2) (\<lambda>(vmes, e3).
             thenE (if dosys e3 \<noteq> kNoMeasured then randomize_vMes ev e3 else Inr e3) (\<lambda>e4.
             thenE (if dosys e4 = kAll then response_RunToy ev e4 else Inr e4) (\<lambda>e5.
             case res e5 of
               None \<Rightarrow> Inl NullPointer
             | Some r \<Rightarrow> for_loop (nat ntoys) (inner r) (vbias, e5)))))) = Inr t'"
    then show "length (fst t') = Suc i * nat ntoys"
      by (cases t, cases t') (auto dest!: thenE_Inr inner_count split: option.splits)
  qed
  then show ?thesis by simp
qed

lemma CalculateBias_Asimov_ignores_hTrue:
  "CalculateBias G ev kBiasAsimov ntoys hTrue e = CalculateBias G ev kBiasAsimov ntoys hTrue' e"
  by (cases "res e") (simp_all add: CalculateBias_def Let_def)

text \<open>
  C6, at a response with one bin, truth \<open>[4]\<close>, and two toys. The four deviations
  that \<^verbatim>\<open>RunBiasAsimovToys\<close> records are the differences \<open>truth - unfolded\<close> (\<open>4 - 5\<close>
  and \<open>4 - 8\<close>), not divided by the truth; the truth they are taken from is the
  nominal one, never randomised; and the two inner toys of an outer toy share one
  unfolding (two calls of \<^verbatim>\<open>Unfold()\<close> for four toys), since the second
  \<^verbatim>\<open>Vunfold()\<close> finds the unfolded flag set. The bias is the mean \<open>- 5 / 2\<close> of the
  four, its error \<open>sqrt (\<bar>34 - (- 10) * (- 5 / 2)\<bar> / 3 / 4)\<close>.
\<close>

theorem CalculateBias_Asimov_absolute:
  "(let ev = env_of Unfold 1 True;
        G = GetErrMat 1 ev;
        e0 = engine_of [4] [4] [4];
        toyFactory = (projr (New ev (response_of [4] [4]) (Hmeasured (response_of [4] [4]))))
                       \<lparr>verbose := 0\<rparr>;
        toys = RunBiasAsimovToys ev 2 toyFactory;
        e1 = projr (CalculateBias G ev kBiasAsimov 2 None e0)
    in fst (projr toys) = [[- 1], [- 1], [- 4], [- 4]]
       \<and> n_unfold (snd (projr toys)) = 2
       \<and> CalculateBias G ev kBiasAsimov 2 None e0 = Inr e1
       \<and> bias (cache e1) = [Finite (- (5 / 2))] \<and> sigbias (cache e1) = [Finite (sqrt (3 / 4))])"
  by (simp add: model_defs toy_defs eval_nat_numeral)

section \<open>Chi squared with diagonal errors\<close>

lemma chi2_loop:
  fixes eunfold :: vec
  assumes "for_loop n
             (\<lambda>i chi2.
                thenE (vget eunfold i) (\<lambda>err.
                  if err \<le> 0 then Inr chi2
                  else thenE (vget (map2 (-) a b) i) (\<lambda>ri.
                         let ypull = ri / err in Inr (chi2 + ypull * ypull))))
             0 = Inr c"
  shows "c = (\<Sum>i\<leftarrow>[0..<n]. if 0 < eunfold ! i then ((a ! i - b ! i) / eunfold ! i)\<^sup>2 else 0)"
proof (rule for_loop_invariant [OF assms, where
      P = "\<lambda>k c. c = (\<Sum>i\<leftarrow>[0..<k]. if 0 < eunfold ! i then ((a ! i - b ! i) / eunfold ! i)\<^sup>2 else 0)"])
  show "(0::real) = (\<Sum>i\<leftarrow>[0..<0]. if 0 < eunfold ! i then ((a ! i - b ! i) / eunfold ! i)\<^sup>2 else 0)"
    by simp
next
  fix i t t'
  assume inv: "t = (\<Sum>i\<leftarrow>[0..<i]. if 0 < eunfold ! i then ((a ! i - b ! i) / eunfold ! i)\<^sup>2 else 0)"
    and step: "thenE (vget eunfold i) (\<lambda>err.
                  if err \<le> 0 then Inr t
                  else thenE (vget (map2 (-) a b) i) (\<lambda>ri.
                         let ypull = ri / err in Inr (t + ypull * ypull))) = Inr t'"
  from thenE_Inr [OF step] obtain err where err: "vget eunfold i = Inr err"
    and s: "(if err \<le> 0 then Inr t
             else thenE (vget (map2 (-) a b) i) (\<lambda>ri.
                    let ypull = ri / err in Inr (t + ypull * ypull))) = Inr t'"
    by blast
  from err have e: "err = eunfold ! i" by (simp add: vget_Inr)
  show "t' = (\<Sum>i\<leftarrow>[0..<Suc i]. if 0 < eunfold ! i then ((a ! i - b ! i) / eunfold ! i)\<^sup>2 else 0)"
  proof (cases "err \<le> 0")
    case True
    with s inv e show ?thesis by simp
  next
    case False
    with s obtain ri where ri: "vget (map2 (-) a b) i = Inr ri"
      and t': "t' = t + (ri / err) * (ri / err)"
      by (auto simp: Let_def dest!: thenE_Inr)
    from vget_Inr [OF ri] have "i < length (map2 (-) a b)" and "ri = map2 (-) a b ! i"
      by simp_all
    then have "ri = a ! i - b ! i" by simp
    with t' inv e False show ?thesis by (simp add: power2_eq_square)
  qed
qed

lemma UnfoldWithErrors_ok_unfolded:
  assumes "UnfoldWithErrors G ev t gw e = Inr (True, e1)" and "t \<noteq> kCovToy"
  shows "unfolded (cache e1)"
  using assms unfolding UnfoldWithErrors_def Let_def
  by (cases t)
    (auto simp: thenE_def result_kept_def dest!: GetErrors_kept GetCov_kept GetWgt_kept
      split: if_splits sum.splits)

lemma EunfoldV_keeps_result:
  assumes "EunfoldV G ev t e = Inr (v, e')" and "unfolded (cache e)" and "t \<noteq> kCovToy"
  shows "rec (cache e') = rec (cache e) \<and> nt e' = nt e"
proof -
  from assms(1) obtain ok where u: "UnfoldWithErrors G ev t (dflt_getWeights ev) e = Inr (ok, e')"
    unfolding EunfoldV_def Let_def by (auto dest!: thenE_Inr split: if_splits)
  have "nt e' = nt e"
    using u assms(2,3) unfolding UnfoldWithErrors_def Let_def
    by (cases t)
      (auto simp: thenE_def result_kept_def dest!: GetErrors_kept GetCov_kept GetWgt_kept
        split: if_splits sum.splits)
  with UnfoldWithErrors_keeps_result [OF u assms(2,3)] show ?thesis by simp
qed

text \<open>
  C8, as amended. For the treatments that take the diagonal branch of \<^verbatim>\<open>Chi2\<close>
  (every treatment but the two covariance ones; of these the no-error and the
  diagonal-error treatment get through \<^verbatim>\<open>EunfoldV\<close> in the base class):
  \<^item> when \<^verbatim>\<open>UnfoldWithErrors\<close> returns false, \<^verbatim>\<open>Chi2\<close> returns \<open>- 1\<close> and does not raise;
  \<^item> whenever \<^verbatim>\<open>Chi2\<close> returns, it returns \<open>- 1\<close> if \<^verbatim>\<open>UnfoldWithErrors\<close> returned false
    or if the sticky fail flag is set, and otherwise the sum over the truth bins
    with strictly positive error \<open>sigma i\<close> of \<open>((rec i - hTrue i) / sigma i)\<^sup>2\<close>,
    where \<open>sigma\<close> is what \<^verbatim>\<open>EunfoldV\<close> returns for the treatment; bins whose error is
    zero or negative are skipped.
\<close>

theorem Chi2_diagonal:
  assumes "DoChi2 \<noteq> kCovariance" and "DoChi2 \<noteq> kCovToy"
  shows "(UnfoldWithErrors G ev DoChi2 (dflt_getWeights ev) e = Inr (False, e1)
            \<longrightarrow> Chi2 G ev hTrue DoChi2 e = Inr (- 1, e1))
       \<and> (Chi2 G ev hTrue DoChi2 e = Inr (c, e') \<longrightarrow>
            (\<exists>ok e1. UnfoldWithErrors G ev DoChi2 (dflt_getWeights ev) e = Inr (ok, e1)
               \<and> (if \<not> ok then c = - 1 \<and> e' = e1
                   else \<exists>sigma. EunfoldV G ev DoChi2 e1 = Inr (sigma, e')
                          \<and> c = (if fail (cache e') then - 1
                                 else \<Sum>i\<leftarrow>[0..<nt e'].
                                        if 0 < sigma ! i
                                        then ((rec (cache e') ! i - hTrue ! i) / sigma ! i)\<^sup>2
                                        else 0))))"
proof (intro conjI impI)
  assume "UnfoldWithErrors G ev DoChi2 (dflt_getWeights ev) e = Inr (False, e1)"
  then show "Chi2 G ev hTrue DoChi2 e = Inr (- 1, e1)"
    by (simp add: Chi2_def thenE_def)
next
  assume a: "Chi2 G ev hTrue DoChi2 e = Inr (c, e')"
  then obtain ok e1 where u: "UnfoldWithErrors G ev DoChi2 (dflt_getWeights ev) e = Inr (ok, e1)"
    and r: "(\<not> ok \<and> c = - 1 \<and> e' = e1)
            \<or> (ok \<and> (\<exists>sigma. EunfoldV G ev DoChi2 e1 = Inr (sigma, e')
                 \<and> ((fail (cache e') \<and> c = - 1)
                    \<or> (\<not> fail (cache e') \<and> for_loop (nt e')
                          (\<lambda>i chi2.
                             thenE (vget sigma i) (\<lambda>err.
                               if err \<le> 0 then Inr chi2
                               else thenE (vget (map2 (-) (rec (cache e1)) hTrue) i) (\<lambda>ri.
                                      let ypull = ri / err in Inr (chi2 + ypull * ypull))))
                          0 = Inr c))))"
    unfolding Chi2_def using assms
    by (auto simp: subtract_def dest!: thenE_Inr split: if_splits)
  show "\<exists>ok e1. UnfoldWithErrors G ev DoChi2 (dflt_getWeights ev) e = Inr (ok, e1)
               \<and> (if \<not> ok then c = - 1 \<and> e' = e1
                   else \<exists>sigma. EunfoldV G ev DoChi2 e1 = Inr (sigma, e')
                          \<and> c = (if fail (cache e') then - 1
                                 else \<Sum>i\<leftarrow>[0..<nt e'].
                                        if 0 < sigma ! i
                                        then ((rec (cache e') ! i - hTrue ! i) / sigma ! i)\<^sup>2
                                        else 0))"
  proof (cases ok)
    case False
    with r u show ?thesis by auto
  next
    case True
    with u assms(2) have unf: "unfolded (cache e1)" by (auto dest: UnfoldWithErrors_ok_unfolded)
    from True r obtain sigma where ev: "EunfoldV G ev DoChi2 e1 = Inr (sigma, e')"
      and c: "(fail (cache e') \<and> c = - 1)
              \<or> (\<not> fail (cache e') \<and> for_loop (nt e')
                          (\<lambda>i chi2.
                             thenE (vget sigma i) (\<lambda>err.
                               if err \<le> 0 then Inr chi2
                               else thenE (vget (map2 (-) (rec (cache e1)) hTrue) i) (\<lambda>ri.
                                      let ypull = ri / err in Inr (chi2 + ypull * ypull))))
                          0 = Inr c)"
      by auto
    from EunfoldV_keeps_result [OF ev unf assms(2)] have k: "rec (cache e') = rec (cache e1)"
      by simp
    from c have "c = (if fail (cache e') then - 1
                                 else \<Sum>i\<leftarrow>[0..<nt e'].
                                        if 0 < sigma ! i
                                        then ((rec (cache e') ! i - hTrue ! i) / sigma ! i)\<^sup>2
                                        else 0)"
      using chi2_loop [of "nt e'" sigma "rec (cache e')" hTrue c] unfolding k by auto
    with u True ev show ?thesis by auto
  qed
qed

lemma Chi2_example:
  "\<not> isl (Chi2 G (env_of Unfold 1 True) [2, 2] kErrors (engine_of [1, 4] [1, 4] [1, 4]))
   \<and> fst (projr (Chi2 G (env_of Unfold 1 True) [2, 2] kErrors (engine_of [1, 4] [1, 4] [1, 4]))) = 2
   \<and> \<not> fail (cache (snd (projr (Chi2 G (env_of Unfold 1 True) [2, 2] kErrors (engine_of [1, 4] [1, 4] [1, 4])))))
   \<and> rec (cache (snd (projr (Chi2 G (env_of Unfold 1 True) [2, 2] kErrors (engine_of [1, 4] [1, 4] [1, 4]))))) = [1, 4]"
  by (simp add: model_defs)


lemma Chi2_failing_example:
  "UnfoldWithErrors G (env_of Unfold_gives_up 1 True) kErrors
     (dflt_getWeights (env_of Unfold_gives_up 1 True)) (engine_of [1, 4] [1, 4] [1, 4])
   = Inr (False, snd (projr (Vunfold (env_of Unfold_gives_up 1 True)
                               (engine_of [1, 4] [1, 4] [1, 4]))))"
  by (simp add: model_defs)

theorem Chi2_diagonal_witness:
  "Chi2 (GetErrMat 1 (env_of Unfold_gives_up 1 True)) (env_of Unfold_gives_up 1 True) [2, 2] kErrors
     (engine_of [1, 4] [1, 4] [1, 4])
   = Inr (- 1, snd (projr (Vunfold (env_of Unfold_gives_up 1 True)
                             (engine_of [1, 4] [1, 4] [1, 4]))))
   \<and> fst (projr (Chi2 (GetErrMat 1 (env_of Unfold 1 True)) (env_of Unfold 1 True) [2, 2] kErrors
                   (engine_of [1, 4] [1, 4] [1, 4]))) = 2
   \<and> (\<exists>ok e1. UnfoldWithErrors (GetErrMat 1 (env_of Unfold 1 True)) (env_of Unfold 1 True) kErrors
                 (dflt_getWeights (env_of Unfold 1 True)) (engine_of [1, 4] [1, 4] [1, 4])
               = Inr (ok, e1))"
proof -
  let ?r = "Chi2 (GetErrMat 1 (env_of Unfold 1 True)) (env_of Unfold 1 True) [2, 2] kErrors
              (engine_of [1, 4] [1, 4] [1, 4])"
  have t: "kErrors \<noteq> kCovariance" "kErrors \<noteq> kCovToy" by simp_all
  have ex: "\<not> isl ?r" "fst (projr ?r) = 2"
    using Chi2_example [of "GetErrMat 1 (env_of Unfold 1 True)"] by simp_all
  from projr_Inr [OF ex(1)] have r: "?r = Inr (fst (projr ?r), snd (projr ?r))" .
  from Chi2_diagonal [OF t, THEN conjunct1, rule_format,
      OF Chi2_failing_example [of "GetErrMat 1 (env_of Unfold_gives_up 1 True)"]]
  have a: "Chi2 (GetErrMat 1 (env_of Unfold_gives_up 1 True)) (env_of Unfold_gives_up 1 True) [2, 2]
             kErrors (engine_of [1, 4] [1, 4] [1, 4])
           = Inr (- 1, snd (projr (Vunfold (env_of Unfold_gives_up 1 True)
                                     (engine_of [1, 4] [1, 4] [1, 4]))))" .
  from Chi2_diagonal [OF t, THEN conjunct2, rule_format, OF r]
  have b: "\<exists>ok e1. UnfoldWithErrors (GetErrMat 1 (env_of Unfold 1 True)) (env_of Unfold 1 True) kErrors
                 (dflt_getWeights (env_of Unfold 1 True)) (engine_of [1, 4] [1, 4] [1, 4])
               = Inr (ok, e1)"
    by blast
  from a b ex(2) show ?thesis by simp
qed

text \<open>
  C8 as stated fails where the fail flag is left over from an earlier request: an
  engine with one toy configured is asked for the toy covariance, which
  \<^verbatim>\<open>GetErrMat\<close> does not compute; \<^verbatim>\<open>UnfoldWithErrors\<close> returns false and sets the fail
  flag, with the result \<open>[1, 4]\<close> cached. The diagonal errors are then computed
  without failure (\<open>[1, 2]\<close>), the sum against the reference \<open>[2, 2]\<close> is \<open>2\<close>, and
  \<^verbatim>\<open>Chi2\<close> returns \<open>- 1\<close>.
\<close>

theorem Chi2_sticky_fail_counterexample:
  "(let ev = env_of Unfold 1 True;
        G = GetErrMat 1 ev;
        e0 = (engine_of [1, 4] [1, 4] [1, 4])\<lparr>NToys := 1\<rparr>;
        e1 = snd (projr (UnfoldWithErrors G ev kCovToy False e0))
    in UnfoldWithErrors G ev kCovToy False e0 = Inr (False, e1)
       \<and> fst (projr (UnfoldWithErrors G ev kErrors False e1))
       \<and> rec (cache e1) = [1, 4]
       \<and> fst (projr (EunfoldV G ev kErrors e1)) = [1, 2]
       \<and> ((1 - 2) / 1)\<^sup>2 + ((4 - 2) / 2)\<^sup>2 = (2 :: real)
       \<and> fst (projr (Chi2 G ev [2, 2] kErrors e1)) = - 1)"
  by (simp add: model_defs toy_defs)

section \<open>Bias from closure toys\<close>

text \<open>
  C7, at a response with one bin, truth and measured content \<open>1\<close> and the Poisson
  error \<open>1\<close>, and one toy whose draw is \<open>0\<close>. The toy unfolds to \<open>[0]\<close> and its error,
  taken from the histogram, is \<open>[1]\<close>. The closure branch tests the error, finds
  it not zero and divides \<open>0 - 1\<close> by the toy's value \<open>0\<close>: the bias and its
  uncertainty are not finite, and \<^verbatim>\<open>CalculateBias\<close> marks them available. Recorded
  for the bins whose toy value is not zero, as the claim has it, there is no
  pull here and the bias is \<open>0\<close>.
\<close>

theorem CalculateBias_Closure_divides_by_zero:
  "(let ev = (env_of Unfold 1 True)\<lparr>randomize := (\<lambda>k v. map (\<lambda>x. 0) v)\<rparr>;
        G = GetErrMat 1 ev;
        e0 = engine_of [1] [1] [1];
        toyFactory = (projr (New ev (response_of [1] [1]) (Hmeasured (response_of [1] [1]))))
                       \<lparr>verbose := 0\<rparr>;
        toys = fst (projr (RunToys G ev 1 toyFactory));
        e1 = projr (CalculateBias G ev kBiasClosure 1 None e0)
    in fst toys = [[0]] \<and> fst (snd toys) = [[1]]
       \<and> CalculateBias G ev kBiasClosure 1 None e0 = Inr e1
       \<and> haveBias (cache e1)
       \<and> bias (cache e1) = [NonFinite] \<and> sigbias (cache e1) = [NonFinite]
       \<and> (\<Sum>i\<leftarrow>[0..<1]. closure_pull_by_value (fst toys) [1] i 0) / 1 = 0)"
  by (simp add: model_defs toy_defs closure_pull_by_value_def eval_nat_numeral)

text \<open>
  Where every toy has a value and an error, the bias is the mean of the pulls
  \<open>(toyResult - truth) / toyResult\<close> and its uncertainty
  \<open>sqrt (sum2 / (ntoys - 1) / ntoys)\<close>: truth \<open>[2]\<close>, toys \<open>[4]\<close> and \<open>[5]\<close>.
\<close>

lemma CalculateBias_Closure_example:
  "(let ev = env_of Unfold 1 True;
        G = GetErrMat 1 ev;
        e0 = engine_of [2] [4] [4];
        toyFactory = (projr (New ev (response_of [2] [4]) (Hmeasured (response_of [2] [4]))))
                       \<lparr>verbose := 0\<rparr>;
        toys = fst (projr (RunToys G ev 2 toyFactory));
        e1 = projr (CalculateBias G ev kBiasClosure 2 None e0)
    in fst toys = [[4], [5]] \<and> fst (snd toys) = [[2], [2]]
       \<and> CalculateBias G ev kBiasClosure 2 None e0 = Inr e1
       \<and> bias (cache e1) = [Finite (((4 - 2) / 4 + (5 - 2) / 5) / 2)]
       \<and> sigbias (cache e1)
           = [Finite (sqrt ((((4 - 2) / 4 - 11 / 20)\<^sup>2 + ((5 - 2) / 5 - 11 / 20)\<^sup>2) / 1 / 2))])"
  by (simp add: model_defs toy_defs eval_nat_numeral power2_eq_square)


text \<open>
  The other side of the same test: with an empty measured bin (content and error
  zero), truth \<open>[2]\<close> and two toys, the second toy unfolds to \<open>[1]\<close> with error \<open>[0]\<close>.
  No pull is recorded and the bias is \<open>0\<close>, where the mean of the pulls taken by
  value is \<open>- 1 / 2\<close>.
\<close>

lemma CalculateBias_Closure_skips_zero_error:
  "(let ev = env_of Unfold 1 True;
        G = GetErrMat 1 ev;
        e0 = engine_of [2] [0] [0];
        toyFactory = (projr (New ev (response_of [2] [0]) (Hmeasured (response_of [2] [0]))))
                       \<lparr>verbose := 0\<rparr>;
        toys = fst (projr (RunToys G ev 2 toyFactory));
        e1 = projr (CalculateBias G ev kBiasClosure 2 None e0)
    in fst toys = [[0], [1]] \<and> fst (snd toys) = [[0], [0]]
       \<and> CalculateBias G ev kBiasClosure 2 None e0 = Inr e1
       \<and> bias (cache e1) = [Finite 0]
       \<and> (\<Sum>i\<leftarrow>[0..<2]. closure_pull_by_value (fst toys) [2] i 0) / 2 = - (1 / 2))"
  by (simp add: model_defs toy_defs closure_pull_by_value_def eval_nat_numeral)


end
